theory Spec2Isabelle
  imports Complex_Main "HOL-Library.Log_Nat"
begin

section \<open>JavaScript numbers\<close>

text \<open>
  The action layer receives every form field as a string and lets the schema validator
  coerce the amount with JavaScript's \<^verbatim>\<open>Number(...)\<close>; the result is an IEEE 754
  binary64 value, and \<^verbatim>\<open>amount * 100\<close> is a binary64 multiplication. A finite
  binary64 value is kept as the rational number it denotes. The sign of zero is not
  kept: no operation of the layer tells \<^verbatim>\<open>-0\<close> from \<^verbatim>\<open>+0\<close> (both compare equal
  to 0 and print as \<^verbatim>\<open>0\<close>).
\<close>

datatype jsnum = NaN | PosInf | NegInf | Fin rat

definition pow2 :: "int \<Rightarrow> rat" where
  "pow2 e = (if 0 \<le> e then 2 ^ nat e else 1 / 2 ^ nat (- e))"

text \<open>
  \<open>binade a\<close> is the integer \<open>k\<close> with \<open>2^k \<le> a < 2^(k+1)\<close> for \<open>a \<ge> 2^-1074\<close>, read
  off the bit length of \<open>a\<close> scaled to an integer; below that it is \<open>-1075\<close>.
\<close>

definition binade :: "rat \<Rightarrow> int" where
  "binade a = int (floorlog 2 (nat \<lfloor>a * 2 ^ 1074\<rfloor>)) - 1075"

text \<open>Rounding to the nearest integer, ties to the even one.\<close>

definition round_half_even :: "rat \<Rightarrow> int" where
  "round_half_even x =
     (let f = \<lfloor>x\<rfloor>; r = x - of_int f
      in if r < 1 / 2 then f
         else if 1 / 2 < r then f + 1
         else if even f then f else f + 1)"

text \<open>
  \<open>fl q\<close> is the binary64 value nearest to the real number \<open>q\<close> (round to nearest, ties
  to even): a 53-bit significand, the exponent of the unit in the last place at least
  \<open>-1074\<close> (subnormal numbers), and overflow to infinity from \<open>2^1024\<close> on.
\<close>

definition fl :: "rat \<Rightarrow> jsnum" where
  "fl q =
     (if q = 0 then Fin 0
      else (let a = \<bar>q\<bar>;
                e = max (binade a - 52) (- 1074);
                m = round_half_even (a / pow2 e);
                v = of_int m * pow2 e
            in if pow2 1024 \<le> v then (if 0 < q then PosInf else NegInf)
               else Fin (if 0 < q then v else - v)))"

text \<open>The \<^verbatim>\<open>*\<close> operator on two Number values.\<close>

fun js_times :: "jsnum \<Rightarrow> jsnum \<Rightarrow> jsnum" where
  "js_times NaN _ = NaN"
| "js_times _ NaN = NaN"
| "js_times (Fin a) (Fin b) = fl (a * b)"
| "js_times (Fin a) PosInf = (if a = 0 then NaN else if 0 < a then PosInf else NegInf)"
| "js_times (Fin a) NegInf = (if a = 0 then NaN else if 0 < a then NegInf else PosInf)"
| "js_times PosInf (Fin b) = (if b = 0 then NaN else if 0 < b then PosInf else NegInf)"
| "js_times NegInf (Fin b) = (if b = 0 then NaN else if 0 < b then NegInf else PosInf)"
| "js_times PosInf PosInf = PosInf"
| "js_times PosInf NegInf = NegInf"
| "js_times NegInf PosInf = NegInf"
| "js_times NegInf NegInf = PosInf"

text \<open>The comparison \<^verbatim>\<open>x <= 0\<close>, false for NaN.\<close>

fun js_le_zero :: "jsnum \<Rightarrow> bool" where
  "js_le_zero NaN = False"
| "js_le_zero PosInf = False"
| "js_le_zero NegInf = True"
| "js_le_zero (Fin a) = (a \<le> 0)"

section \<open>Strings and \<^verbatim>\<open>Number(...)\<close> on a string\<close>

text \<open>
  A string is a list of characters with codes below 256. Among those, JavaScript's white
  space and line terminators are TAB, LF, VT, FF, CR, SP and NBSP; \<^verbatim>\<open>String.prototype.trim\<close>
  and the string-to-number conversion strip exactly these from both ends.
\<close>

definition is_white_space :: "char \<Rightarrow> bool" where
  "is_white_space c = (of_char c \<in> {9, 10, 11, 12, 13, 32, 160 :: nat})"

definition trim :: "string \<Rightarrow> string" where
  "trim s = rev (dropWhile is_white_space (rev (dropWhile is_white_space s)))"

definition is_digit :: "char \<Rightarrow> bool" where
  "is_digit c = (c \<in> set ''0123456789'')"

definition digit_value :: "char \<Rightarrow> nat option" where
  "digit_value c =
     (if is_digit c then Some (of_char c - 48)
      else if c \<in> set ''abcdef'' then Some (of_char c - 87)
      else if c \<in> set ''ABCDEF'' then Some (of_char c - 55)
      else None)"

text \<open>The value of a non-empty run of digits in the given radix; None when a character
  is not a digit of that radix.\<close>

fun radix_value :: "nat \<Rightarrow> nat \<Rightarrow> string \<Rightarrow> nat option" where
  "radix_value r acc [] = Some acc"
| "radix_value r acc (c # cs) =
     (case digit_value c of
        None \<Rightarrow> None
      | Some d \<Rightarrow> if d < r then radix_value r (r * acc + d) cs else None)"

definition digits_value :: "nat \<Rightarrow> string \<Rightarrow> nat option" where
  "digits_value r ds = (if ds = [] then None else radix_value r 0 ds)"

definition pow10 :: "int \<Rightarrow> rat" where
  "pow10 e = (if 0 \<le> e then 10 ^ nat e else 1 / 10 ^ nat (- e))"

text \<open>ExponentPart, optional: \<^verbatim>\<open>e\<close> or \<^verbatim>\<open>E\<close>, an optional sign, one digit or more.\<close>

definition exponent_part :: "string \<Rightarrow> int option" where
  "exponent_part s =
     (case s of
        [] \<Rightarrow> Some 0
      | c # t \<Rightarrow>
          if c = CHR ''e'' \<or> c = CHR ''E'' then
            (case t of
               [] \<Rightarrow> None
             | d # u \<Rightarrow>
                 if d = CHR ''-'' then map_option (\<lambda>n. - int n) (digits_value 10 u)
                 else if d = CHR ''+'' then map_option int (digits_value 10 u)
                 else map_option int (digits_value 10 t))
          else None)"

text \<open>
  StrUnsignedDecimalLiteral: \<^verbatim>\<open>Infinity\<close>, or digits with an optional fraction and an
  optional exponent, at least one digit before or after the point. The mathematical
  value is rounded to binary64, correctly for any number of digits, as the engines do.
\<close>

definition unsigned_decimal :: "string \<Rightarrow> jsnum" where
  "unsigned_decimal s =
     (if s = ''Infinity'' then PosInf
      else (let ip = takeWhile is_digit s;
                r1 = dropWhile is_digit s;
                has_dot = (r1 \<noteq> [] \<and> hd r1 = CHR ''.'');
                fp = (if has_dot then takeWhile is_digit (tl r1) else []);
                r2 = (if has_dot then dropWhile is_digit (tl r1) else r1)
            in if ip = [] \<and> fp = [] then NaN
               else (case (digits_value 10 (ip @ fp), exponent_part r2) of
                       (Some m, Some e) \<Rightarrow> fl (of_nat m * pow10 (e - int (length fp)))
                     | _ \<Rightarrow> NaN)))"

fun js_negate :: "jsnum \<Rightarrow> jsnum" where
  "js_negate NaN = NaN"
| "js_negate PosInf = NegInf"
| "js_negate NegInf = PosInf"
| "js_negate (Fin a) = Fin (- a)"

text \<open>
  StringToNumber: white space is stripped; the empty string is 0; \<^verbatim>\<open>0x\<close>, \<^verbatim>\<open>0o\<close> and
  \<^verbatim>\<open>0b\<close> (either case) start an unsigned integer in radix 16, 8 and 2; anything else
  is an optionally signed decimal literal; a string of no such form is NaN.
\<close>

definition StringToNumber :: "string \<Rightarrow> jsnum" where
  "StringToNumber str =
     (let s = trim str
      in if s = [] then Fin 0
         else if 2 \<le> length s \<and> hd s = CHR ''0'' \<and> hd (tl s) \<in> set ''xXoObB'' then
           (let r = (if hd (tl s) \<in> set ''xX'' then 16 else if hd (tl s) \<in> set ''oO'' then 8 else 2)
            in case digits_value r (drop 2 s) of
                 None \<Rightarrow> NaN
               | Some n \<Rightarrow> fl (of_nat n))
         else if hd s = CHR ''+'' then unsigned_decimal (tl s)
         else if hd s = CHR ''-'' then js_negate (unsigned_decimal (tl s))
         else unsigned_decimal s)"

section \<open>Form data\<close>

text \<open>
  \<^verbatim>\<open>formData.get(name)\<close> is the first value of the field: a string, a \<^verbatim>\<open>File\<close>, or
  \<^verbatim>\<open>null\<close> (here None) when the form has no such field.
\<close>

datatype form_entry = Str string | File

type_synonym form_data = "string \<Rightarrow> form_entry option"

text \<open>\<^verbatim>\<open>Number(v)\<close> on such a value: \<^verbatim>\<open>null\<close> is 0, and an object is converted
  through its string form, \<^verbatim>\<open>[object File]\<close>.\<close>

definition js_Number :: "form_entry option \<Rightarrow> jsnum" where
  "js_Number v =
     (case v of
        None \<Rightarrow> Fin 0
      | Some (Str s) \<Rightarrow> StringToNumber s
      | Some File \<Rightarrow> StringToNumber ''[object File]'')"

section \<open>Schema validation\<close>

text \<open>
  The result of \<^verbatim>\<open>error.flatten().fieldErrors\<close>: the messages of each field that has an
  issue, and no entry for a field without one. Messages the schema does not set are
  those of the validator's default error map (zod 3).
\<close>

type_synonym field_errors = "string \<rightharpoonup> string list"

definition field_issue :: "string \<Rightarrow> string list + 'a \<Rightarrow> field_errors" where
  "field_issue name r = (case r of Inl msgs \<Rightarrow> [name \<mapsto> msgs] | Inr _ \<Rightarrow> Map.empty)"

text \<open>\<^verbatim>\<open>customerId: z.string({ invalid_type_error: 'Please select a customer.' })\<close>\<close>

definition parse_customerId :: "form_entry option \<Rightarrow> string list + string" where
  "parse_customerId v =
     (case v of
        Some (Str s) \<Rightarrow> Inr s
      | _ \<Rightarrow> Inl [''Please select a customer.''])"

text \<open>\<^verbatim>\<open>amount: z.coerce.number().gt(0, { message: ... })\<close>: the input goes through
  \<^verbatim>\<open>Number\<close>, NaN is a type issue, and \<^verbatim>\<open>gt(0)\<close> rejects \<^verbatim>\<open>data <= 0\<close>.\<close>

definition parse_amount :: "form_entry option \<Rightarrow> string list + jsnum" where
  "parse_amount v =
     (let n = js_Number v
      in if n = NaN then Inl [''Expected number, received nan'']
         else if js_le_zero n then Inl [''Please enter an amount greater than $0.'']
         else Inr n)"

text \<open>\<^verbatim>\<open>status: z.enum(['pending', 'paid'], { invalid_type_error: ... })\<close>\<close>

definition parse_status :: "form_entry option \<Rightarrow> string list + string" where
  "parse_status v =
     (case v of
        Some (Str s) \<Rightarrow>
          if s = ''pending'' \<or> s = ''paid'' then Inr s
          else Inl [''Invalid enum value. Expected '' @ [CHR 0x27] @ ''pending'' @ [CHR 0x27]
                    @ '' | '' @ [CHR 0x27] @ ''paid'' @ [CHR 0x27] @ '', received ''
                    @ [CHR 0x27] @ s @ [CHR 0x27]]
      | _ \<Rightarrow> Inl [''Please select an invoice status.''])"

record invoice_fields =
  data_customerId :: string
  data_amount :: jsnum
  data_status :: string

text \<open>\<^verbatim>\<open>FormSchema.omit({ id: true, date: true })\<close>: the three remaining fields are
  parsed, all issues are collected.\<close>

definition FormSchema_safeParse ::
  "form_entry option \<Rightarrow> form_entry option \<Rightarrow> form_entry option \<Rightarrow> field_errors + invoice_fields" where
  "FormSchema_safeParse c a s =
     (case (parse_customerId c, parse_amount a, parse_status s) of
        (Inr c', Inr a', Inr s') \<Rightarrow> Inr \<lparr>data_customerId = c', data_amount = a', data_status = s'\<rparr>
      | (rc, ra, rs) \<Rightarrow>
          Inl (field_issue ''customerId'' rc ++ field_issue ''amount'' ra ++ field_issue ''status'' rs))"

definition CreateInvoice_safeParse ::
  "form_entry option \<Rightarrow> form_entry option \<Rightarrow> form_entry option \<Rightarrow> field_errors + invoice_fields" where
  "CreateInvoice_safeParse = FormSchema_safeParse"

definition UpdateInvoice_safeParse ::
  "form_entry option \<Rightarrow> form_entry option \<Rightarrow> form_entry option \<Rightarrow> field_errors + invoice_fields" where
  "UpdateInvoice_safeParse = FormSchema_safeParse"

text \<open>\<^verbatim>\<open>name: z.string().trim().min(1, { message: "Name is required" })\<close>\<close>

definition parse_name :: "form_entry option \<Rightarrow> string list + string" where
  "parse_name v =
     (case v of
        Some (Str s) \<Rightarrow> if length (trim s) < 1 then Inl [''Name is required''] else Inr (trim s)
      | None \<Rightarrow> Inl [''Expected string, received null'']
      | Some File \<Rightarrow> Inl [''Expected string, received object''])"

text \<open>\<^verbatim>\<open>email: z.string().trim().email({ message: "Invalid email address" })\<close>. The
  validator's email pattern is a parameter, \<open>is_email\<close>.\<close>

definition parse_email :: "(string \<Rightarrow> bool) \<Rightarrow> form_entry option \<Rightarrow> string list + string" where
  "parse_email is_email v =
     (case v of
        Some (Str s) \<Rightarrow> if is_email (trim s) then Inr (trim s) else Inl [''Invalid email address'']
      | None \<Rightarrow> Inl [''Expected string, received null'']
      | Some File \<Rightarrow> Inl [''Expected string, received object''])"

record customer_fields =
  data_name :: string
  data_email :: string

definition CustomerFormSchema_safeParse ::
  "(string \<Rightarrow> bool) \<Rightarrow> form_entry option \<Rightarrow> form_entry option \<Rightarrow> field_errors + customer_fields" where
  "CustomerFormSchema_safeParse is_email n e =
     (case (parse_name n, parse_email is_email e) of
        (Inr n', Inr e') \<Rightarrow> Inr \<lparr>data_name = n', data_email = e'\<rparr>
      | (rn, re) \<Rightarrow> Inl (field_issue ''name'' rn ++ field_issue ''email'' re))"

definition CreateCustomer_safeParse ::
  "(string \<Rightarrow> bool) \<Rightarrow> form_entry option \<Rightarrow> form_entry option \<Rightarrow> field_errors + customer_fields" where
  "CreateCustomer_safeParse = CustomerFormSchema_safeParse"

definition UpdateCustomer_safeParse ::
  "(string \<Rightarrow> bool) \<Rightarrow> form_entry option \<Rightarrow> form_entry option \<Rightarrow> field_errors + customer_fields" where
  "UpdateCustomer_safeParse = CustomerFormSchema_safeParse"

section \<open>The store, the cache and the environment\<close>

record invoice_row =
  inv_id :: string
  inv_customer_id :: string
  inv_amount :: jsnum
  inv_status :: string
  inv_date :: string

record customer_row =
  cust_id :: string
  cust_name :: string
  cust_email :: string
  cust_image_url :: string

text \<open>The parameterized SQL statements of the layer, one constructor each, with their
  bound parameters in the order of the statement's text.\<close>

datatype stmt =
    InsertInvoice string jsnum string string
  | UpdateInvoiceById string jsnum string string
  | DeleteInvoiceById string
  | InsertCustomer string string
  | UpdateCustomerById string string string
  | DeleteCustomerById string
  | EmailExists string
  | EmailExistsExcept string string
  | InvoiceExistsFor string

text \<open>
  A thrown value: an \<^verbatim>\<open>AuthError\<close> with its \<^verbatim>\<open>type\<close> field, the \<^verbatim>\<open>TypeError\<close> of reading
  a property of \<^verbatim>\<open>undefined\<close>, or any other error.
\<close>

datatype js_error = AuthError string | TypeError | OtherError string

text \<open>
  What the layer does not own: whether the SQL client throws on a statement (and what),
  the identifier the store generates for an inserted row, the clock (as the text
  \<^verbatim>\<open>new Date().toISOString()\<close> gives), the validator's email pattern, and the
  outcome of the delegated \<^verbatim>\<open>signIn\<close> (None when it throws nothing).
\<close>

record env =
  sql_error :: "stmt \<Rightarrow> js_error option"
  generated_id :: string
  now_iso :: string
  is_email :: "string \<Rightarrow> bool"
  signIn :: "string \<Rightarrow> form_data \<Rightarrow> js_error option"

text \<open>The two tables, the statements sent to the store so far, and the paths passed to
  \<^verbatim>\<open>revalidatePath\<close> so far.\<close>

record world =
  invoices :: "invoice_row list"
  customers :: "customer_row list"
  sql_log :: "stmt list"
  revalidated :: "string list"

text \<open>
  The effect of a statement on the tables and the rows it returns (the \<^verbatim>\<open>case\<close>
  column of the \<^verbatim>\<open>SELECT CASE WHEN EXISTS\<close> queries):
  \<^item> \<^verbatim>\<open>INSERT INTO invoices (customer_id, amount, status, date) VALUES (...)\<close> adds a
    row under the identifier the store generates;
  \<^item> \<^verbatim>\<open>UPDATE invoices SET customer_id = .., amount = .., status = .. WHERE id = ..\<close>
    sets these three columns in the rows of that id;
  \<^item> \<^verbatim>\<open>DELETE FROM invoices WHERE id = ..\<close> removes the rows of that id;
  \<^item> \<^verbatim>\<open>INSERT INTO customers (name, email, image_url) VALUES (.., .., '')
    ON CONFLICT (id) DO NOTHING\<close> adds a row unless the generated identifier is taken;
  \<^item> \<^verbatim>\<open>UPDATE customers SET name = .., email = .. WHERE id = ..\<close> and
    \<^verbatim>\<open>DELETE FROM customers WHERE id = ..\<close> likewise;
  \<^item> the three queries answer 0 or 1 as their \<^verbatim>\<open>THEN\<close> and \<^verbatim>\<open>ELSE\<close> say.
\<close>

fun run_stmt :: "env \<Rightarrow> stmt \<Rightarrow> world \<Rightarrow> int list \<times> world" where
  "run_stmt en (InsertInvoice c a s d) w =
     ([], w\<lparr>invoices := invoices w @
        [\<lparr>inv_id = generated_id en, inv_customer_id = c, inv_amount = a, inv_status = s, inv_date = d\<rparr>]\<rparr>)"
| "run_stmt en (UpdateInvoiceById c a s i) w =
     ([], w\<lparr>invoices := map (\<lambda>r. if inv_id r = i
        then r\<lparr>inv_customer_id := c, inv_amount := a, inv_status := s\<rparr> else r) (invoices w)\<rparr>)"
| "run_stmt en (DeleteInvoiceById i) w =
     ([], w\<lparr>invoices := filter (\<lambda>r. inv_id r \<noteq> i) (invoices w)\<rparr>)"
| "run_stmt en (InsertCustomer n e) w =
     ([], if generated_id en \<in> cust_id ` set (customers w) then w
          else w\<lparr>customers := customers w @
            [\<lparr>cust_id = generated_id en, cust_name = n, cust_email = e, cust_image_url = []\<rparr>]\<rparr>)"
| "run_stmt en (UpdateCustomerById n e i) w =
     ([], w\<lparr>customers := map (\<lambda>r. if cust_id r = i
        then r\<lparr>cust_name := n, cust_email := e\<rparr> else r) (customers w)\<rparr>)"
| "run_stmt en (DeleteCustomerById i) w =
     ([], w\<lparr>customers := filter (\<lambda>r. cust_id r \<noteq> i) (customers w)\<rparr>)"
| "run_stmt en (EmailExists e) w =
     ([if \<exists>r \<in> set (customers w). cust_email r = e then 0 else 1], w)"
| "run_stmt en (EmailExistsExcept e i) w =
     ([if \<exists>r \<in> set (customers w). cust_email r = e \<and> cust_id r \<noteq> i then 0 else 1], w)"
| "run_stmt en (InvoiceExistsFor i) w =
     ([if \<exists>r \<in> set (invoices w). inv_customer_id r = i then 1 else 0], w)"

text \<open>
  One call of the SQL client: the statement is sent; either the client throws and the
  tables stay as they are, or the statement takes effect. Every reason the store has to
  reject a statement (it cannot be reached, a parameter does not fit the column's type,
  a constraint fails) is in \<open>sql_error\<close>.
\<close>

definition sql :: "env \<Rightarrow> stmt \<Rightarrow> world \<Rightarrow> (js_error + int list) \<times> world" where
  "sql en st w =
     (let w' = w\<lparr>sql_log := sql_log w @ [st]\<rparr>
      in case sql_error en st of
           Some err \<Rightarrow> (Inl err, w')
         | None \<Rightarrow> (case run_stmt en st w' of (rows, w'') \<Rightarrow> (Inr rows, w'')))"

definition revalidatePath :: "string \<Rightarrow> world \<Rightarrow> world" where
  "revalidatePath path w = w\<lparr>revalidated := revalidated w @ [path]\<rparr>"

section \<open>The actions\<close>

text \<open>
  An action ends in one of three ways: it returns a value, it transfers control with
  \<^verbatim>\<open>redirect\<close> (which does not return to the caller), or it throws.
\<close>

datatype 'a outcome = Returned 'a | Redirected string | Thrown js_error

text \<open>\<^verbatim>\<open>State\<close> and \<^verbatim>\<open>CustomerState\<close>: optional field errors and a message.\<close>

record action_state =
  errors :: "field_errors option"
  message :: "string option"

text \<open>\<^verbatim>\<open>s.split(sep)[0]\<close>: the text before the first separator.\<close>

definition split_head :: "char \<Rightarrow> string \<Rightarrow> string" where
  "split_head sep s = takeWhile (\<lambda>c. c \<noteq> sep) s"

definition createInvoice ::
  "env \<Rightarrow> action_state \<Rightarrow> form_data \<Rightarrow> world \<Rightarrow> action_state outcome \<times> world" where
  "createInvoice en prevState formData w =
     (case CreateInvoice_safeParse (formData ''customerId'') (formData ''amount'') (formData ''status'') of
        Inl fieldErrors \<Rightarrow>
          (Returned \<lparr>errors = Some fieldErrors,
                     message = Some ''Missing Fields. Failed to Create Invoice.''\<rparr>, w)
      | Inr d \<Rightarrow>
          (let amountInCents = js_times (data_amount d) (Fin 100);
               date = split_head CHR ''T'' (now_iso en)
           in case sql en (InsertInvoice (data_customerId d) amountInCents (data_status d) date) w of
                (Inl error, w1) \<Rightarrow>
                  (Returned \<lparr>errors = None,
                             message = Some ''Database Error: Failed to Create Invoice.''\<rparr>, w1)
              | (Inr _, w1) \<Rightarrow>
                  (Redirected ''/dashboard/invoices'', revalidatePath ''/dashboard/invoices'' w1)))"

definition updateInvoice ::
  "env \<Rightarrow> string \<Rightarrow> action_state \<Rightarrow> form_data \<Rightarrow> world \<Rightarrow> action_state outcome \<times> world" where
  "updateInvoice en id' prevState formData w =
     (case UpdateInvoice_safeParse (formData ''customerId'') (formData ''amount'') (formData ''status'') of
        Inl fieldErrors \<Rightarrow>
          (Returned \<lparr>errors = Some fieldErrors,
                     message = Some ''Missing Fields. Failed to Update Invoice.''\<rparr>, w)
      | Inr d \<Rightarrow>
          (let amountInCents = js_times (data_amount d) (Fin 100)
           in case sql en (UpdateInvoiceById (data_customerId d) amountInCents (data_status d) id') w of
                (Inl error, w1) \<Rightarrow>
                  (Returned \<lparr>errors = None,
                             message = Some ''Database Error: Failed to Update Invoice.''\<rparr>, w1)
              | (Inr _, w1) \<Rightarrow>
                  (Redirected ''/dashboard/invoices'', revalidatePath ''/dashboard/invoices'' w1)))"

definition deleteInvoice :: "env \<Rightarrow> string \<Rightarrow> world \<Rightarrow> action_state outcome \<times> world" where
  "deleteInvoice en id' w =
     (case sql en (DeleteInvoiceById id') w of
        (Inr _, w1) \<Rightarrow>
          (Returned \<lparr>errors = None, message = Some ''Deleted Invoice.''\<rparr>,
           revalidatePath ''/dashboard/invoices'' w1)
      | (Inl error, w1) \<Rightarrow>
          (Returned \<lparr>errors = None, message = Some ''Database Error: Failed to Delete Invoice.''\<rparr>, w1))"

text \<open>
  \<^verbatim>\<open>isEmailUnique(email, customerId?)\<close>: the branch is taken on the truthiness of
  \<^verbatim>\<open>customerId\<close>, so a missing and an empty identifier both take the query without the
  exclusion. Neither query is inside a \<^verbatim>\<open>try\<close>: an error of the SQL client leaves the
  function as a throw.
\<close>

definition isEmailUnique ::
  "env \<Rightarrow> string \<Rightarrow> string option \<Rightarrow> world \<Rightarrow> (js_error + bool) \<times> world" where
  "isEmailUnique en email customerId w =
     (let query = (case customerId of
                     Some i \<Rightarrow> if i \<noteq> [] then EmailExistsExcept email i else EmailExists email
                   | None \<Rightarrow> EmailExists email)
      in case sql en query w of
           (Inl error, w1) \<Rightarrow> (Inl error, w1)
         | (Inr rows, w1) \<Rightarrow>
             (case rows of
                [] \<Rightarrow> (Inl TypeError, w1)
              | c # _ \<Rightarrow> (Inr (c = 1), w1)))"

definition createCustomer ::
  "env \<Rightarrow> action_state \<Rightarrow> form_data \<Rightarrow> world \<Rightarrow> action_state outcome \<times> world" where
  "createCustomer en prevState formData w =
     (case CreateCustomer_safeParse (is_email en) (formData ''name'') (formData ''email'') of
        Inl fieldErrors \<Rightarrow>
          (Returned \<lparr>errors = Some fieldErrors,
                     message = Some ''Missing Fields. Failed to Create Customer.''\<rparr>, w)
      | Inr d \<Rightarrow>
          (case isEmailUnique en (data_email d) None w of
             (Inl error, w1) \<Rightarrow> (Thrown error, w1)
           | (Inr unique, w1) \<Rightarrow>
               if \<not> unique then
                 (Returned \<lparr>errors = Some [''email'' \<mapsto> [''Email is already is use.'']],
                            message = Some ''Missing Fields. Failed to Create Customer.''\<rparr>, w1)
               else
                 (case sql en (InsertCustomer (data_name d) (data_email d)) w1 of
                    (Inl error, w2) \<Rightarrow>
                      (Returned \<lparr>errors = None,
                                 message = Some ''Database Error: Failed to Create Customer.''\<rparr>, w2)
                  | (Inr _, w2) \<Rightarrow>
                      (Redirected ''/dashboard/customers'',
                       revalidatePath ''/dashboard/customers'' w2))))"

definition updateCustomer ::
  "env \<Rightarrow> string \<Rightarrow> action_state \<Rightarrow> form_data \<Rightarrow> world \<Rightarrow> action_state outcome \<times> world" where
  "updateCustomer en id' prevState formData w =
     (case UpdateCustomer_safeParse (is_email en) (formData ''name'') (formData ''email'') of
        Inl fieldErrors \<Rightarrow>
          (Returned \<lparr>errors = Some fieldErrors,
                     message = Some ''Missing Fields. Failed to Create Customer.''\<rparr>, w)
      | Inr d \<Rightarrow>
          (case isEmailUnique en (data_email d) (Some id') w of
             (Inl error, w1) \<Rightarrow> (Thrown error, w1)
           | (Inr unique, w1) \<Rightarrow>
               if \<not> unique then
                 (Returned \<lparr>errors = Some [''email'' \<mapsto> [''Email is already is use.'']],
                            message = Some ''Missing Fields. Failed to Create Customer.''\<rparr>, w1)
               else
                 (case sql en (UpdateCustomerById (data_name d) (data_email d) id') w1 of
                    (Inl error, w2) \<Rightarrow>
                      (Returned \<lparr>errors = None,
                                 message = Some ''Database Error: Failed to Update Customer.''\<rparr>, w2)
                  | (Inr _, w2) \<Rightarrow>
                      (Redirected ''/dashboard/customers'',
                       revalidatePath ''/dashboard/customers'' w2))))"

text \<open>\<^verbatim>\<open>deleteCustomer\<close>: both statements and the read of \<^verbatim>\<open>rows[0].case\<close> are inside
  one \<^verbatim>\<open>try\<close>, so every throw ends in the database error message.\<close>

definition deleteCustomer :: "env \<Rightarrow> string \<Rightarrow> world \<Rightarrow> action_state outcome \<times> world" where
  "deleteCustomer en id' w =
     (let failed = Returned \<lparr>errors = None,
                             message = Some ''Database Error: Failed to Delete Customer.''\<rparr>
      in case sql en (InvoiceExistsFor id') w of
           (Inl error, w1) \<Rightarrow> (failed, w1)
         | (Inr isAssignedToAnyInvoice, w1) \<Rightarrow>
             (case isAssignedToAnyInvoice of
                [] \<Rightarrow> (failed, w1)
              | c # _ \<Rightarrow>
                  if c = 0 then
                    (case sql en (DeleteCustomerById id') w1 of
                       (Inl error, w2) \<Rightarrow> (failed, w2)
                     | (Inr _, w2) \<Rightarrow>
                         (Returned \<lparr>errors = None, message = Some ''Deleted Customer.''\<rparr>,
                          revalidatePath ''/dashboard/customers'' w2))
                  else
                    (Returned \<lparr>errors = None,
                       message = Some ''Cannot delete Customer who is already assigned to any Invoice.''\<rparr>,
                     w1)))"

text \<open>\<^verbatim>\<open>authenticate\<close>: the returned value is a string, or \<^verbatim>\<open>undefined\<close> (None) when
  the function runs to its end.\<close>

definition authenticate :: "env \<Rightarrow> string option \<Rightarrow> form_data \<Rightarrow> string option outcome" where
  "authenticate en prevState formData =
     (case signIn en ''credentials'' formData of
        None \<Rightarrow> Returned None
      | Some error \<Rightarrow>
          (case error of
             AuthError type \<Rightarrow>
               if type = ''CredentialsSignin'' then Returned (Some ''Invalid credentials.'')
               else Returned (Some ''Something went wrong.'')
           | _ \<Rightarrow> Thrown error))"

section \<open>Notions used in the statements\<close>

text \<open>The statements an action sent: what the log of the final world has beyond the
  log of the initial one.\<close>

definition issued :: "world \<Rightarrow> world \<Rightarrow> stmt list" where
  "issued w w' = drop (length (sql_log w)) (sql_log w')"

text \<open>The statements that write: \<^verbatim>\<open>INSERT\<close>, \<^verbatim>\<open>UPDATE\<close> and \<^verbatim>\<open>DELETE\<close>.\<close>

fun is_write :: "stmt \<Rightarrow> bool" where
  "is_write (EmailExists _) = False"
| "is_write (EmailExistsExcept _ _) = False"
| "is_write (InvoiceExistsFor _) = False"
| "is_write _ = True"

text \<open>A successful write: the action sent a writing statement and the SQL client did
  not reject it.\<close>

definition wrote :: "env \<Rightarrow> world \<Rightarrow> world \<Rightarrow> bool" where
  "wrote en w w' = (\<exists>st \<in> set (issued w w'). is_write st \<and> sql_error en st = None)"

text \<open>The query \<^verbatim>\<open>isEmailUnique(email, id)\<close> sends: with the exclusion when the id is
  truthy, without it when the id is the empty string.\<close>

definition uniqueness_query :: "string \<Rightarrow> string \<Rightarrow> stmt" where
  "uniqueness_query e i = (if i \<noteq> [] then EmailExistsExcept e i else EmailExists e)"

text \<open>No stored customer has the empty string as its identifier.\<close>

definition customer_ids_nonempty :: "world \<Rightarrow> bool" where
  "customer_ids_nonempty w = (\<forall>r \<in> set (customers w). cust_id r \<noteq> [])"

text \<open>The result \<^verbatim>\<open>{ message: m }\<close>, without field errors.\<close>

definition message_only :: "string \<Rightarrow> action_state" where
  "message_only m = \<lparr>errors = None, message = Some m\<rparr>"

text \<open>The result of a rejected duplicate email, in \<^verbatim>\<open>createCustomer\<close> and
  \<^verbatim>\<open>updateCustomer\<close> alike.\<close>

definition email_in_use :: action_state where
  "email_in_use = \<lparr>errors = Some [''email'' \<mapsto> [''Email is already is use.'']],
                    message = Some ''Missing Fields. Failed to Create Customer.''\<rparr>"

section \<open>Evaluating the rounding\<close>

lemma pow2_powi: "pow2 e = 2 powi e"
  by (simp add: pow2_def power_int_def power_inverse inverse_eq_divide power_one_over)

lemma pow2_pos: "0 < pow2 e"
  by (simp add: pow2_def)

lemma pow2_add: "pow2 (a + b) = pow2 a * pow2 b"
  by (simp add: pow2_powi power_int_add)

lemma pow2_of_nat: "pow2 (int n) = 2 ^ n"
  by (simp add: pow2_def)

lemma floorlog_scaled:
  assumes lo: "pow2 k \<le> a" and hi: "a < pow2 (k + 1)" and k: "- int s \<le> k"
  shows "int (floorlog 2 (nat \<lfloor>a * 2 ^ s\<rfloor>)) = k + int s + 1"
proof -
  define j where "j = nat (k + int s)"
  define n where "n = nat \<lfloor>a * 2 ^ s\<rfloor>"
  have j: "int j = k + int s" using k by (simp add: j_def)
  have "pow2 k * 2 ^ s = pow2 (k + int s)"
    by (simp add: pow2_add pow2_of_nat)
  also have "\<dots> = 2 ^ j"
    by (simp add: j [symmetric] pow2_of_nat)
  finally have pj: "pow2 k * 2 ^ s = 2 ^ j" .
  have "pow2 (k + 1) * 2 ^ s = pow2 (int (Suc j))"
    using j by (simp add: pow2_add pow2_of_nat add.commute)
  then have pj': "pow2 (k + 1) * 2 ^ s = 2 ^ Suc j"
    by (simp only: pow2_of_nat)
  have "pow2 k * 2 ^ s \<le> a * 2 ^ s"
    using lo by (simp add: mult_right_mono)
  then have "(2::rat) ^ j \<le> a * 2 ^ s"
    by (simp only: pj)
  then have "(2::int) ^ j \<le> \<lfloor>a * 2 ^ s\<rfloor>"
    by (simp add: le_floor_iff)
  then have fj: "(2::int) ^ j \<le> \<lfloor>a * 2 ^ s\<rfloor>" .
  have "(0::int) \<le> 2 ^ j" by simp
  then have nn: "0 \<le> \<lfloor>a * 2 ^ s\<rfloor>" using fj by (rule order_trans)
  have l: "2 ^ j \<le> n"
    unfolding n_def using fj by (simp add: le_nat_iff)
  have "a * 2 ^ s < pow2 (k + 1) * 2 ^ s"
    using hi by (simp add: mult_strict_right_mono)
  then have "a * 2 ^ s < (2::rat) ^ Suc j"
    by (simp only: pj')
  then have "\<lfloor>a * 2 ^ s\<rfloor> < (2::int) ^ Suc j"
    by (simp add: floor_less_iff)
  then have u: "n < 2 ^ Suc j"
    unfolding n_def using nn by (simp add: nat_less_iff)
  have "Suc j \<le> floorlog 2 n"
    using l by (intro floorlog_ge_SucI) simp_all
  moreover have "floorlog 2 n \<le> Suc j"
    using u by (intro floorlog_leI) simp_all
  ultimately have "floorlog 2 n = Suc j" by simp
  then show ?thesis
    using j unfolding n_def by simp
qed

lemma binade_eq:
  assumes "pow2 k \<le> a" and "a < pow2 (k + 1)" and "- 1074 \<le> k"
  shows "binade a = k"
proof -
  have "- int 1074 \<le> k" using assms(3) by simp
  from floorlog_scaled [OF assms(1,2) this] show ?thesis
    unfolding binade_def by simp
qed

lemma round_half_even_near:
  assumes "\<bar>x - of_int m\<bar> < 1 / 2"
  shows "round_half_even x = m"
proof -
  have b: "x - of_int m < 1 / 2" "- (1 / 2) < x - of_int m"
    using assms by linarith+
  have "\<lfloor>x\<rfloor> = m \<or> \<lfloor>x\<rfloor> = m - 1"
    using b by (auto simp: floor_eq_iff)
  then show ?thesis
  proof
    assume f: "\<lfloor>x\<rfloor> = m"
    show ?thesis using f b(1) by (simp add: round_half_even_def Let_def)
  next
    assume f: "\<lfloor>x\<rfloor> = m - 1"
    have "1 / 2 < x - of_int (m - 1)" using b(2) by simp 
    then show ?thesis using f by (simp add: round_half_even_def Let_def)
  qed
qed

lemma round_half_even_tie:
  assumes "x = of_int f + 1 / 2"
  shows "round_half_even x = (if even f then f else f + 1)"
proof -
  have "\<lfloor>x\<rfloor> = f" using assms by (simp add: floor_eq_iff)
  then show ?thesis using assms by (simp add: round_half_even_def Let_def)
qed

lemma fl_eval:
  assumes "0 < q" "pow2 k \<le> q" "q < pow2 (k + 1)" "- 1074 \<le> k"
    and "e = max (k - 52) (- 1074)"
    and "round_half_even (q / pow2 e) = m"
    and "v = of_int m * pow2 e"
    and "v < pow2 1024"
  shows "fl q = Fin v"
  using assms by (simp add: fl_def binade_eq Let_def)

section \<open>Creating an invoice\<close>

text \<open>The amount of the scenario: \<^verbatim>\<open>Number("49.99")\<close> is the binary64 number
  \<open>7035467042882847 / 2^47\<close>, and its product with 100 rounds to 4999.\<close>

lemma fl_49_99: "fl (4999 / 100) = Fin (7035467042882847 / 140737488355328)"
proof (rule fl_eval [where k = 5 and m = 7035467042882847 and e = "- 47"])
  show "round_half_even (4999 / 100 / pow2 (- 47)) = 7035467042882847"
    by (rule round_half_even_near) (simp add: pow2_def)
qed (simp_all add: pow2_def)

lemma fl_49_99_times_100: "fl (7035467042882847 / 140737488355328 * 100) = Fin 4999"
proof (rule fl_eval [where k = 12 and m = "4999 * 2 ^ 40" and e = "- 40"])
  show "round_half_even (7035467042882847 / 140737488355328 * 100 / pow2 (- 40)) = 4999 * 2 ^ 40"
    by (rule round_half_even_near) (simp add: pow2_def)
qed (simp_all add: pow2_def)

lemma trim_49_99: "trim ''49.99'' = ''49.99''"
  by (simp add: trim_def is_white_space_def)

lemma StringToNumber_49_99: "StringToNumber ''49.99'' = Fin (7035467042882847 / 140737488355328)"
proof -
  have "unsigned_decimal ''49.99'' = fl (4999 / 100)"
    by (simp add: unsigned_decimal_def is_digit_def digits_value_def digit_value_def
        exponent_part_def pow10_def Let_def)
  then show ?thesis
    by (simp add: StringToNumber_def trim_49_99 fl_49_99)
qed

lemma parse_amount_49_99:
  "parse_amount (Some (Str ''49.99'')) = Inr (Fin (7035467042882847 / 140737488355328))"
  by (simp add: parse_amount_def js_Number_def StringToNumber_49_99)

lemma times_100_49_99: "js_times (Fin (7035467042882847 / 140737488355328)) (Fin 100) = Fin 4999"
  using fl_49_99_times_100 by simp

lemma FormSchema_49_99:
  assumes "c = Some (Str cid)" and "s = Some (Str ''pending'')"
  shows "FormSchema_safeParse c (Some (Str ''49.99'')) s
    = Inr \<lparr>data_customerId = cid, data_amount = Fin (7035467042882847 / 140737488355328),
           data_status = ''pending''\<rparr>"
  using assms
  by (simp add: FormSchema_safeParse_def parse_amount_49_99 parse_customerId_def parse_status_def)

lemma split_head_append: "sep \<notin> set d \<Longrightarrow> split_head sep (d @ sep # t) = d"
  by (auto simp: split_head_def takeWhile_tail)

text \<open>
  C1. With the form fields \<^verbatim>\<open>amount="49.99"\<close>, \<^verbatim>\<open>status="pending"\<close> and
  \<^verbatim>\<open>customerId="c1"\<close>, and an \<^verbatim>\<open>INSERT\<close> the SQL client does not reject,
  \<^verbatim>\<open>createInvoice\<close> stores a row whose amount is the integer 4999 (49.99 is read as
  a binary64 number and multiplied by 100 in binary64 arithmetic, which gives exactly
  4999) and whose date is the calendar date of the clock (the text of the ISO timestamp
  before its \<^verbatim>\<open>T\<close>), invalidates \<^verbatim>\<open>/dashboard/invoices\<close> and redirects there.
\<close>

theorem createInvoice_scenario:
  assumes "formData ''customerId'' = Some (Str ''c1'')"
    and "formData ''amount'' = Some (Str ''49.99'')"
    and "formData ''status'' = Some (Str ''pending'')"
    and "now_iso en = today @ CHR ''T'' # time" and "CHR ''T'' \<notin> set today"
    and "sql_error en (InsertInvoice ''c1'' (Fin 4999) ''pending'' today) = None"
  shows "createInvoice en prevState formData w =
    (Redirected ''/dashboard/invoices'',
     w\<lparr>invoices := invoices w @
          [\<lparr>inv_id = generated_id en, inv_customer_id = ''c1'', inv_amount = Fin 4999,
            inv_status = ''pending'', inv_date = today\<rparr>],
       sql_log := sql_log w @ [InsertInvoice ''c1'' (Fin 4999) ''pending'' today],
       revalidated := revalidated w @ [''/dashboard/invoices'']\<rparr>)"
proof -
  have p: "CreateInvoice_safeParse (formData ''customerId'') (formData ''amount'') (formData ''status'')
      = Inr \<lparr>data_customerId = ''c1'', data_amount = Fin (7035467042882847 / 140737488355328),
             data_status = ''pending''\<rparr>"
    using assms(1-3) by (simp add: CreateInvoice_safeParse_def FormSchema_49_99)
  have d: "split_head CHR ''T'' (now_iso en) = today"
    using assms(4,5) by (simp add: split_head_append)
  show ?thesis
    using assms(6)
    by (simp add: createInvoice_def p d times_100_49_99 sql_def revalidatePath_def Let_def
        del: js_times.simps)
qed

theorem createInvoice_scenario_witness:
  "createInvoice
     \<lparr>sql_error = (\<lambda>_. None), generated_id = ''inv-1'', now_iso = ''2024-05-17T09:30:00.000Z'',
      is_email = (\<lambda>_. True), signIn = (\<lambda>_ _. None)\<rparr>
     \<lparr>errors = None, message = None\<rparr>
     [''customerId'' \<mapsto> Str ''c1'', ''amount'' \<mapsto> Str ''49.99'', ''status'' \<mapsto> Str ''pending'']
     \<lparr>invoices = [], customers = [], sql_log = [], revalidated = []\<rparr>
   = (Redirected ''/dashboard/invoices'',
      \<lparr>invoices = [\<lparr>inv_id = ''inv-1'', inv_customer_id = ''c1'', inv_amount = Fin 4999,
                     inv_status = ''pending'', inv_date = ''2024-05-17''\<rparr>],
       customers = [],
       sql_log = [InsertInvoice ''c1'' (Fin 4999) ''pending'' ''2024-05-17''],
       revalidated = [''/dashboard/invoices'']\<rparr>)"
  using createInvoice_scenario
    [of "[''customerId'' \<mapsto> Str ''c1'', ''amount'' \<mapsto> Str ''49.99'', ''status'' \<mapsto> Str ''pending'']"
        "\<lparr>sql_error = (\<lambda>_. None), generated_id = ''inv-1'', now_iso = ''2024-05-17T09:30:00.000Z'',
          is_email = (\<lambda>_. True), signIn = (\<lambda>_ _. None)\<rparr>"
        "''2024-05-17''" "''09:30:00.000Z''"
        "\<lparr>errors = None, message = None\<rparr>"
        "\<lparr>invoices = [], customers = [], sql_log = [], revalidated = []\<rparr>"]
  by simp

section \<open>Email uniqueness\<close>

lemma customer_parse_ok:
  assumes "formData ''name'' = Some (Str rawName)" and "trim rawName \<noteq> []"
    and "formData ''email'' = Some (Str rawEmail)" and "is_email en (trim rawEmail)"
  shows "CustomerFormSchema_safeParse (is_email en) (formData ''name'') (formData ''email'')
    = Inr \<lparr>data_name = trim rawName, data_email = trim rawEmail\<rparr>"
  using assms
  by (simp add: CustomerFormSchema_safeParse_def parse_name_def parse_email_def Suc_le_eq
      less_Suc_eq_0_disj)

lemma isEmailUnique_create:
  assumes "sql_error en (EmailExists e) = None"
  shows "isEmailUnique en e None w =
    (Inr (\<not> (\<exists>r \<in> set (customers w). cust_email r = e)),
     w\<lparr>sql_log := sql_log w @ [EmailExists e]\<rparr>)"
  using assms by (simp add: isEmailUnique_def sql_def Let_def)

text \<open>On a table without an empty identifier, both branches of \<^verbatim>\<open>isEmailUnique\<close> answer
  whether a row of another id has the email: the branch an empty \<^verbatim>\<open>customerId\<close> takes
  looks at every row, and every row is then a row of another id.\<close>

lemma isEmailUnique_update:
  assumes "sql_error en (EmailExists e) = None" and "sql_error en (EmailExistsExcept e i) = None"
    and "customer_ids_nonempty w"
  shows "isEmailUnique en e (Some i) w =
    (Inr (\<not> (\<exists>r \<in> set (customers w). cust_email r = e \<and> cust_id r \<noteq> i)),
     w\<lparr>sql_log := sql_log w @ [uniqueness_query e i]\<rparr>)"
proof (cases "i = []")
  case True
  have "(\<exists>r \<in> set (customers w). cust_email r = e \<and> cust_id r \<noteq> i)
      = (\<exists>r \<in> set (customers w). cust_email r = e)"
    using assms(3) True by (auto simp: customer_ids_nonempty_def)
  with True assms(1) show ?thesis
    by (simp add: isEmailUnique_def sql_def Let_def uniqueness_query_def)
next
  case False
  with assms(2) show ?thesis
    by (simp add: isEmailUnique_def sql_def Let_def uniqueness_query_def)
qed

lemma isEmailUnique_cases:
  obtains (failed) err q where "sql_error en q = Some err" "\<not> is_write q"
      "isEmailUnique en e i w = (Inl err, w\<lparr>sql_log := sql_log w @ [q]\<rparr>)"
    | (answered) b q where "sql_error en q = None" "\<not> is_write q"
      "isEmailUnique en e i w = (Inr b, w\<lparr>sql_log := sql_log w @ [q]\<rparr>)"
proof -
  define q where "q = (case i of
      Some j \<Rightarrow> if j \<noteq> [] then EmailExistsExcept e j else EmailExists e
    | None \<Rightarrow> EmailExists e)"
  have nw: "\<not> is_write q"
    by (simp add: q_def split: option.splits)
  show thesis
  proof (cases "sql_error en q")
    case None
    with nw have "\<exists>b. isEmailUnique en e i w = (Inr b, w\<lparr>sql_log := sql_log w @ [q]\<rparr>)"
      unfolding isEmailUnique_def q_def [symmetric]
      by (cases q) (simp_all add: sql_def Let_def)
    with None nw answered show ?thesis by blast
  next
    case (Some err)
    then have "isEmailUnique en e i w = (Inl err, w\<lparr>sql_log := sql_log w @ [q]\<rparr>)"
      unfolding isEmailUnique_def q_def [symmetric]
      by (simp add: sql_def Let_def)
    with Some nw failed show ?thesis by blast
  qed
qed

text \<open>
  No action stores an empty identifier: the \<^verbatim>\<open>INSERT\<close> binds no id, so a new row has the
  one the store generates; the \<^verbatim>\<open>UPDATE\<close> keeps the ids; the \<^verbatim>\<open>DELETE\<close> only removes
  rows. With a store that generates no empty identifier, a table without one stays so
  under all six actions.
\<close>

lemma customer_ids_nonempty_createCustomer:
  assumes "customer_ids_nonempty w" and "generated_id en \<noteq> []"
  shows "customer_ids_nonempty (snd (createCustomer en prevState formData w))"
proof (cases "CreateCustomer_safeParse (is_email en) (formData ''name'') (formData ''email'')")
  case (Inl errs)
  with assms show ?thesis by (simp add: createCustomer_def)
next
  case (Inr d)
  show ?thesis
  proof (cases rule: isEmailUnique_cases [of en "data_email d" None w])
    case (failed err q)
    with assms Inr show ?thesis
      by (simp add: createCustomer_def customer_ids_nonempty_def)
  next
    case (answered b q)
    with assms Inr show ?thesis
      by (auto simp: createCustomer_def sql_def Let_def revalidatePath_def
          customer_ids_nonempty_def split: option.splits if_splits)
  qed
qed

lemma customer_ids_nonempty_updateCustomer:
  assumes "customer_ids_nonempty w"
  shows "customer_ids_nonempty (snd (updateCustomer en id' prevState formData w))"
proof (cases "UpdateCustomer_safeParse (is_email en) (formData ''name'') (formData ''email'')")
  case (Inl errs)
  with assms show ?thesis by (simp add: updateCustomer_def)
next
  case (Inr d)
  show ?thesis
  proof (cases rule: isEmailUnique_cases [of en "data_email d" "Some id'" w])
    case (failed err q)
    with assms Inr show ?thesis
      by (simp add: updateCustomer_def customer_ids_nonempty_def)
  next
    case (answered b q)
    with assms Inr show ?thesis
      by (auto simp: updateCustomer_def sql_def Let_def revalidatePath_def
          customer_ids_nonempty_def split: option.splits if_splits)
  qed
qed

lemma customer_ids_nonempty_others:
  assumes "customer_ids_nonempty w"
  shows "customer_ids_nonempty (snd (createInvoice en prevState formData w))"
    and "customer_ids_nonempty (snd (updateInvoice en id' prevState formData w))"
    and "customer_ids_nonempty (snd (deleteInvoice en id' w))"
    and "customer_ids_nonempty (snd (deleteCustomer en id' w))"
  using assms
  by (auto simp: createInvoice_def updateInvoice_def deleteInvoice_def deleteCustomer_def
      sql_def Let_def revalidatePath_def customer_ids_nonempty_def
      split: sum.splits option.splits if_splits)

text \<open>
  C2. Let the form pass the schema (a string name that is not empty after trimming, a
  string email the pattern accepts after trimming), let the SQL client not reject the
  uniqueness query, and let no stored customer have an empty identifier. If a customer row
  has the trimmed email, \<^verbatim>\<open>createCustomer\<close> returns the email field error
  \<^verbatim>\<open>["Email is already is use."]\<close> and only the query was sent: no row is written. For
  \<^verbatim>\<open>updateCustomer\<close> with any id: if a row with another id has the email, the same error
  is returned and nothing is written; if no row with another id has it (the row being
  updated may), the check passes, the \<^verbatim>\<open>UPDATE\<close> is sent, and when the client does not
  reject it the row is updated, the customers path is invalidated and control goes to it.
\<close>

theorem customer_email_uniqueness:
  assumes "formData ''name'' = Some (Str rawName)" and "trim rawName \<noteq> []"
    and "formData ''email'' = Some (Str rawEmail)" and "is_email en (trim rawEmail)"
    and "sql_error en (EmailExists (trim rawEmail)) = None"
    and "sql_error en (EmailExistsExcept (trim rawEmail) id') = None"
    and "customer_ids_nonempty w"
  shows "((\<exists>r \<in> set (customers w). cust_email r = trim rawEmail) \<longrightarrow>
            createCustomer en prevState formData w =
              (Returned email_in_use, w\<lparr>sql_log := sql_log w @ [EmailExists (trim rawEmail)]\<rparr>))
       \<and> ((\<exists>r \<in> set (customers w). cust_email r = trim rawEmail \<and> cust_id r \<noteq> id') \<longrightarrow>
            updateCustomer en id' prevState formData w =
              (Returned email_in_use,
               w\<lparr>sql_log := sql_log w @ [uniqueness_query (trim rawEmail) id']\<rparr>))
       \<and> ((\<forall>r \<in> set (customers w). cust_email r = trim rawEmail \<longrightarrow> cust_id r = id') \<longrightarrow>
            issued w (snd (updateCustomer en id' prevState formData w)) =
              [uniqueness_query (trim rawEmail) id',
               UpdateCustomerById (trim rawName) (trim rawEmail) id']
            \<and> (sql_error en (UpdateCustomerById (trim rawName) (trim rawEmail) id') = None \<longrightarrow>
                 updateCustomer en id' prevState formData w =
                   (Redirected ''/dashboard/customers'',
                    w\<lparr>customers := map (\<lambda>r. if cust_id r = id'
                          then r\<lparr>cust_name := trim rawName, cust_email := trim rawEmail\<rparr> else r)
                          (customers w),
                      sql_log := sql_log w @ [uniqueness_query (trim rawEmail) id',
                          UpdateCustomerById (trim rawName) (trim rawEmail) id'],
                      revalidated := revalidated w @ [''/dashboard/customers'']\<rparr>)))"
proof -
  note p = customer_parse_ok [OF assms(1-4)]
  note c = isEmailUnique_create [OF assms(5)]
  note u = isEmailUnique_update [OF assms(5,6,7)]
  have a: "(\<exists>r \<in> set (customers w). cust_email r = trim rawEmail) \<longrightarrow>
            createCustomer en prevState formData w =
              (Returned email_in_use, w\<lparr>sql_log := sql_log w @ [EmailExists (trim rawEmail)]\<rparr>)"
    by (simp add: createCustomer_def CreateCustomer_safeParse_def p c email_in_use_def)
  have b: "(\<exists>r \<in> set (customers w). cust_email r = trim rawEmail \<and> cust_id r \<noteq> id') \<longrightarrow>
            updateCustomer en id' prevState formData w =
              (Returned email_in_use,
               w\<lparr>sql_log := sql_log w @ [uniqueness_query (trim rawEmail) id']\<rparr>)"
    by (simp add: updateCustomer_def UpdateCustomer_safeParse_def p u email_in_use_def)
  have d: "(\<forall>r \<in> set (customers w). cust_email r = trim rawEmail \<longrightarrow> cust_id r = id') \<longrightarrow>
            issued w (snd (updateCustomer en id' prevState formData w)) =
              [uniqueness_query (trim rawEmail) id',
               UpdateCustomerById (trim rawName) (trim rawEmail) id']
            \<and> (sql_error en (UpdateCustomerById (trim rawName) (trim rawEmail) id') = None \<longrightarrow>
                 updateCustomer en id' prevState formData w =
                   (Redirected ''/dashboard/customers'',
                    w\<lparr>customers := map (\<lambda>r. if cust_id r = id'
                          then r\<lparr>cust_name := trim rawName, cust_email := trim rawEmail\<rparr> else r)
                          (customers w),
                      sql_log := sql_log w @ [uniqueness_query (trim rawEmail) id',
                          UpdateCustomerById (trim rawName) (trim rawEmail) id'],
                      revalidated := revalidated w @ [''/dashboard/customers'']\<rparr>))"
    by (auto simp: updateCustomer_def UpdateCustomer_safeParse_def p u sql_def Let_def
        issued_def revalidatePath_def split: option.splits)
  from a b d show ?thesis by blast
qed

theorem customer_email_uniqueness_witness:
  "createCustomer
     \<lparr>sql_error = (\<lambda>_. None), generated_id = ''7'', now_iso = ''2024-05-17T09:30:00.000Z'',
      is_email = (\<lambda>s. CHR ''@'' \<in> set s), signIn = (\<lambda>_ _. None)\<rparr>
     \<lparr>errors = None, message = None\<rparr>
     [''name'' \<mapsto> Str ''Bob'', ''email'' \<mapsto> Str ''a@x.com'']
     \<lparr>invoices = [],
      customers = [\<lparr>cust_id = ''9'', cust_name = ''Ann'', cust_email = ''a@x.com'', cust_image_url = []\<rparr>],
      sql_log = [], revalidated = []\<rparr>
   = (Returned email_in_use,
      \<lparr>invoices = [],
       customers = [\<lparr>cust_id = ''9'', cust_name = ''Ann'', cust_email = ''a@x.com'', cust_image_url = []\<rparr>],
       sql_log = [EmailExists ''a@x.com''], revalidated = []\<rparr>)
   \<and> updateCustomer
     \<lparr>sql_error = (\<lambda>_. None), generated_id = ''7'', now_iso = ''2024-05-17T09:30:00.000Z'',
      is_email = (\<lambda>s. CHR ''@'' \<in> set s), signIn = (\<lambda>_ _. None)\<rparr>
     ''5''
     \<lparr>errors = None, message = None\<rparr>
     [''name'' \<mapsto> Str ''Bob'', ''email'' \<mapsto> Str ''a@x.com'']
     \<lparr>invoices = [],
      customers = [\<lparr>cust_id = ''9'', cust_name = ''Ann'', cust_email = ''a@x.com'', cust_image_url = []\<rparr>],
      sql_log = [], revalidated = []\<rparr>
   = (Returned email_in_use,
      \<lparr>invoices = [],
       customers = [\<lparr>cust_id = ''9'', cust_name = ''Ann'', cust_email = ''a@x.com'', cust_image_url = []\<rparr>],
       sql_log = [EmailExistsExcept ''a@x.com'' ''5''], revalidated = []\<rparr>)
   \<and> updateCustomer
     \<lparr>sql_error = (\<lambda>_. None), generated_id = ''7'', now_iso = ''2024-05-17T09:30:00.000Z'',
      is_email = (\<lambda>s. CHR ''@'' \<in> set s), signIn = (\<lambda>_ _. None)\<rparr>
     ''9''
     \<lparr>errors = None, message = None\<rparr>
     [''name'' \<mapsto> Str ''Bob'', ''email'' \<mapsto> Str ''a@x.com'']
     \<lparr>invoices = [],
      customers = [\<lparr>cust_id = ''9'', cust_name = ''Ann'', cust_email = ''a@x.com'', cust_image_url = []\<rparr>],
      sql_log = [], revalidated = []\<rparr>
   = (Redirected ''/dashboard/customers'',
      \<lparr>invoices = [],
       customers = [\<lparr>cust_id = ''9'', cust_name = ''Bob'', cust_email = ''a@x.com'', cust_image_url = []\<rparr>],
       sql_log = [EmailExistsExcept ''a@x.com'' ''9'', UpdateCustomerById ''Bob'' ''a@x.com'' ''9''],
       revalidated = [''/dashboard/customers'']\<rparr>)
   \<and> updateCustomer
     \<lparr>sql_error = (\<lambda>_. None), generated_id = ''7'', now_iso = ''2024-05-17T09:30:00.000Z'',
      is_email = (\<lambda>s. CHR ''@'' \<in> set s), signIn = (\<lambda>_ _. None)\<rparr>
     []
     \<lparr>errors = None, message = None\<rparr>
     [''name'' \<mapsto> Str ''Bob'', ''email'' \<mapsto> Str ''a@x.com'']
     \<lparr>invoices = [],
      customers = [\<lparr>cust_id = ''9'', cust_name = ''Ann'', cust_email = ''a@x.com'', cust_image_url = []\<rparr>],
      sql_log = [], revalidated = []\<rparr>
   = (Returned email_in_use,
      \<lparr>invoices = [],
       customers = [\<lparr>cust_id = ''9'', cust_name = ''Ann'', cust_email = ''a@x.com'', cust_image_url = []\<rparr>],
       sql_log = [EmailExists ''a@x.com''], revalidated = []\<rparr>)"
proof -
  let ?en = "\<lparr>sql_error = (\<lambda>_. None), generated_id = ''7'', now_iso = ''2024-05-17T09:30:00.000Z'',
      is_email = (\<lambda>s. CHR ''@'' \<in> set s), signIn = (\<lambda>_ _. None)\<rparr>"
  let ?p = "\<lparr>errors = None, message = None\<rparr>"
  let ?f = "[''name'' \<mapsto> Str ''Bob'', ''email'' \<mapsto> Str ''a@x.com'']"
  let ?w = "\<lparr>invoices = [],
      customers = [\<lparr>cust_id = ''9'', cust_name = ''Ann'', cust_email = ''a@x.com'', cust_image_url = []\<rparr>],
      sql_log = [], revalidated = []\<rparr>"
  have inv: "customer_ids_nonempty ?w"
    by (simp add: customer_ids_nonempty_def)
  have t: "trim ''Bob'' = ''Bob''" "trim ''a@x.com'' = ''a@x.com''"
    by (simp_all add: trim_def is_white_space_def)
  note c5 = customer_email_uniqueness [where formData = ?f and rawName = "''Bob''"
      and rawEmail = "''a@x.com''" and en = ?en and w = ?w and prevState = ?p and id' = "''5''"]
  note c9 = customer_email_uniqueness [where formData = ?f and rawName = "''Bob''"
      and rawEmail = "''a@x.com''" and en = ?en and w = ?w and prevState = ?p and id' = "''9''"]
  note c0 = customer_email_uniqueness [where formData = ?f and rawName = "''Bob''"
      and rawEmail = "''a@x.com''" and en = ?en and w = ?w and prevState = ?p and id' = "[]"]
  from c5 c9 c0 inv show ?thesis
    by (simp add: t uniqueness_query_def)
qed

section \<open>Deleting a customer\<close>

text \<open>
  C3. Let the SQL client not reject the guard query. If an invoice references the
  customer id, \<^verbatim>\<open>deleteCustomer\<close> returns the refusal message and only the guard query was
  sent: no \<^verbatim>\<open>DELETE\<close> is issued and the customers table is as before. If no invoice
  references it and the client does not reject the \<^verbatim>\<open>DELETE\<close>, the rows with that id are
  removed, the customers path is invalidated and the success message is returned.
\<close>

theorem deleteCustomer_guard:
  assumes "sql_error en (InvoiceExistsFor id') = None"
  shows "((\<exists>r \<in> set (invoices w). inv_customer_id r = id') \<longrightarrow>
            deleteCustomer en id' w =
              (Returned (message_only ''Cannot delete Customer who is already assigned to any Invoice.''),
               w\<lparr>sql_log := sql_log w @ [InvoiceExistsFor id']\<rparr>))
       \<and> ((\<forall>r \<in> set (invoices w). inv_customer_id r \<noteq> id')
            \<and> sql_error en (DeleteCustomerById id') = None \<longrightarrow>
            deleteCustomer en id' w =
              (Returned (message_only ''Deleted Customer.''),
               w\<lparr>customers := filter (\<lambda>r. cust_id r \<noteq> id') (customers w),
                 sql_log := sql_log w @ [InvoiceExistsFor id', DeleteCustomerById id'],
                 revalidated := revalidated w @ [''/dashboard/customers'']\<rparr>)
            \<and> id' \<notin> cust_id ` set (customers (snd (deleteCustomer en id' w))))"
  using assms
  by (auto simp: deleteCustomer_def sql_def Let_def message_only_def revalidatePath_def)

theorem deleteCustomer_guard_witness:
  "deleteCustomer
     \<lparr>sql_error = (\<lambda>_. None), generated_id = ''7'', now_iso = ''2024-05-17T09:30:00.000Z'',
      is_email = (\<lambda>s. CHR ''@'' \<in> set s), signIn = (\<lambda>_ _. None)\<rparr>
     ''9''
     \<lparr>invoices = [\<lparr>inv_id = ''i1'', inv_customer_id = ''9'', inv_amount = Fin 4999,
                    inv_status = ''paid'', inv_date = ''2024-05-17''\<rparr>],
      customers = [\<lparr>cust_id = ''9'', cust_name = ''Ann'', cust_email = ''a@x.com'', cust_image_url = []\<rparr>,
                   \<lparr>cust_id = ''5'', cust_name = ''Bob'', cust_email = ''b@x.com'', cust_image_url = []\<rparr>],
      sql_log = [], revalidated = []\<rparr>
   = (Returned (message_only ''Cannot delete Customer who is already assigned to any Invoice.''),
      \<lparr>invoices = [\<lparr>inv_id = ''i1'', inv_customer_id = ''9'', inv_amount = Fin 4999,
                    inv_status = ''paid'', inv_date = ''2024-05-17''\<rparr>],
       customers = [\<lparr>cust_id = ''9'', cust_name = ''Ann'', cust_email = ''a@x.com'', cust_image_url = []\<rparr>,
                    \<lparr>cust_id = ''5'', cust_name = ''Bob'', cust_email = ''b@x.com'', cust_image_url = []\<rparr>],
       sql_log = [InvoiceExistsFor ''9''], revalidated = []\<rparr>)
   \<and> deleteCustomer
     \<lparr>sql_error = (\<lambda>_. None), generated_id = ''7'', now_iso = ''2024-05-17T09:30:00.000Z'',
      is_email = (\<lambda>s. CHR ''@'' \<in> set s), signIn = (\<lambda>_ _. None)\<rparr>
     ''5''
     \<lparr>invoices = [\<lparr>inv_id = ''i1'', inv_customer_id = ''9'', inv_amount = Fin 4999,
                    inv_status = ''paid'', inv_date = ''2024-05-17''\<rparr>],
      customers = [\<lparr>cust_id = ''9'', cust_name = ''Ann'', cust_email = ''a@x.com'', cust_image_url = []\<rparr>,
                   \<lparr>cust_id = ''5'', cust_name = ''Bob'', cust_email = ''b@x.com'', cust_image_url = []\<rparr>],
      sql_log = [], revalidated = []\<rparr>
   = (Returned (message_only ''Deleted Customer.''),
      \<lparr>invoices = [\<lparr>inv_id = ''i1'', inv_customer_id = ''9'', inv_amount = Fin 4999,
                    inv_status = ''paid'', inv_date = ''2024-05-17''\<rparr>],
       customers = [\<lparr>cust_id = ''9'', cust_name = ''Ann'', cust_email = ''a@x.com'', cust_image_url = []\<rparr>],
       sql_log = [InvoiceExistsFor ''5'', DeleteCustomerById ''5''],
       revalidated = [''/dashboard/customers'']\<rparr>)"
  using deleteCustomer_guard
    [where id' = "''9''"
       and en = "\<lparr>sql_error = (\<lambda>_. None), generated_id = ''7'', now_iso = ''2024-05-17T09:30:00.000Z'',
          is_email = (\<lambda>s. CHR ''@'' \<in> set s), signIn = (\<lambda>_ _. None)\<rparr>"
       and w = "\<lparr>invoices = [\<lparr>inv_id = ''i1'', inv_customer_id = ''9'', inv_amount = Fin 4999,
                    inv_status = ''paid'', inv_date = ''2024-05-17''\<rparr>],
          customers = [\<lparr>cust_id = ''9'', cust_name = ''Ann'', cust_email = ''a@x.com'', cust_image_url = []\<rparr>,
                   \<lparr>cust_id = ''5'', cust_name = ''Bob'', cust_email = ''b@x.com'', cust_image_url = []\<rparr>],
          sql_log = [], revalidated = []\<rparr>"]
    deleteCustomer_guard
    [where id' = "''5''"
       and en = "\<lparr>sql_error = (\<lambda>_. None), generated_id = ''7'', now_iso = ''2024-05-17T09:30:00.000Z'',
          is_email = (\<lambda>s. CHR ''@'' \<in> set s), signIn = (\<lambda>_ _. None)\<rparr>"
       and w = "\<lparr>invoices = [\<lparr>inv_id = ''i1'', inv_customer_id = ''9'', inv_amount = Fin 4999,
                    inv_status = ''paid'', inv_date = ''2024-05-17''\<rparr>],
          customers = [\<lparr>cust_id = ''9'', cust_name = ''Ann'', cust_email = ''a@x.com'', cust_image_url = []\<rparr>,
                   \<lparr>cust_id = ''5'', cust_name = ''Bob'', cust_email = ''b@x.com'', cust_image_url = []\<rparr>],
          sql_log = [], revalidated = []\<rparr>"]
  by simp

section \<open>Authentication\<close>

text \<open>
  C5. When \<^verbatim>\<open>signIn\<close> throws an \<^verbatim>\<open>AuthError\<close> of type \<^verbatim>\<open>CredentialsSignin\<close>,
  \<^verbatim>\<open>authenticate\<close> returns the string \<^verbatim>\<open>Invalid credentials.\<close>; when it throws an
  \<^verbatim>\<open>AuthError\<close> of any other type, \<^verbatim>\<open>authenticate\<close> returns the string
  \<^verbatim>\<open>Something went wrong.\<close>; when it throws anything that is not an \<^verbatim>\<open>AuthError\<close>,
  \<^verbatim>\<open>authenticate\<close> throws the same error again.
\<close>

theorem authenticate_errors:
  "(signIn en ''credentials'' formData = Some (AuthError ''CredentialsSignin'') \<longrightarrow>
      authenticate en prevState formData = Returned (Some ''Invalid credentials.''))
   \<and> (\<forall>t. signIn en ''credentials'' formData = Some (AuthError t) \<and> t \<noteq> ''CredentialsSignin'' \<longrightarrow>
      authenticate en prevState formData = Returned (Some ''Something went wrong.''))
   \<and> (\<forall>e. signIn en ''credentials'' formData = Some e \<and> (\<forall>t. e \<noteq> AuthError t) \<longrightarrow>
      authenticate en prevState formData = Thrown e)"
  by (auto simp: authenticate_def split: js_error.splits)

theorem authenticate_errors_witness:
  "authenticate
     \<lparr>sql_error = (\<lambda>_. None), generated_id = ''7'', now_iso = ''2024-05-17T09:30:00.000Z'',
      is_email = (\<lambda>_. True), signIn = (\<lambda>_ _. Some (AuthError ''CredentialsSignin''))\<rparr>
     None [''email'' \<mapsto> Str ''user@nextmail.com'', ''password'' \<mapsto> Str ''wrong'']
   = Returned (Some ''Invalid credentials.'')
   \<and> authenticate
     \<lparr>sql_error = (\<lambda>_. None), generated_id = ''7'', now_iso = ''2024-05-17T09:30:00.000Z'',
      is_email = (\<lambda>_. True), signIn = (\<lambda>_ _. Some (AuthError ''CallbackRouteError''))\<rparr>
     None [''email'' \<mapsto> Str ''user@nextmail.com'', ''password'' \<mapsto> Str ''wrong'']
   = Returned (Some ''Something went wrong.'')
   \<and> authenticate
     \<lparr>sql_error = (\<lambda>_. None), generated_id = ''7'', now_iso = ''2024-05-17T09:30:00.000Z'',
      is_email = (\<lambda>_. True), signIn = (\<lambda>_ _. Some (OtherError ''connect ECONNREFUSED''))\<rparr>
     None [''email'' \<mapsto> Str ''user@nextmail.com'', ''password'' \<mapsto> Str ''wrong'']
   = Thrown (OtherError ''connect ECONNREFUSED'')"
  using authenticate_errors
    [where en = "\<lparr>sql_error = (\<lambda>_. None), generated_id = ''7'', now_iso = ''2024-05-17T09:30:00.000Z'',
          is_email = (\<lambda>_. True), signIn = (\<lambda>_ _. Some (AuthError ''CredentialsSignin''))\<rparr>"
       and prevState = None
       and formData = "[''email'' \<mapsto> Str ''user@nextmail.com'', ''password'' \<mapsto> Str ''wrong'']"]
    authenticate_errors
    [where en = "\<lparr>sql_error = (\<lambda>_. None), generated_id = ''7'', now_iso = ''2024-05-17T09:30:00.000Z'',
          is_email = (\<lambda>_. True), signIn = (\<lambda>_ _. Some (AuthError ''CallbackRouteError''))\<rparr>"
       and prevState = None
       and formData = "[''email'' \<mapsto> Str ''user@nextmail.com'', ''password'' \<mapsto> Str ''wrong'']"]
    authenticate_errors
    [where en = "\<lparr>sql_error = (\<lambda>_. None), generated_id = ''7'', now_iso = ''2024-05-17T09:30:00.000Z'',
          is_email = (\<lambda>_. True), signIn = (\<lambda>_ _. Some (OtherError ''connect ECONNREFUSED''))\<rparr>"
       and prevState = None
       and formData = "[''email'' \<mapsto> Str ''user@nextmail.com'', ''password'' \<mapsto> Str ''wrong'']"]
  by simp

text \<open>
  C9. When \<^verbatim>\<open>signIn\<close> throws nothing, \<^verbatim>\<open>authenticate\<close> runs to its end and returns
  \<^verbatim>\<open>undefined\<close>, not a string.
\<close>

theorem authenticate_success_undefined:
  "signIn en ''credentials'' formData = None \<Longrightarrow> authenticate en prevState formData = Returned None"
  by (simp add: authenticate_def)

theorem authenticate_success_undefined_witness:
  "authenticate
     \<lparr>sql_error = (\<lambda>_. None), generated_id = ''7'', now_iso = ''2024-05-17T09:30:00.000Z'',
      is_email = (\<lambda>_. True), signIn = (\<lambda>_ _. None)\<rparr>
     None [''email'' \<mapsto> Str ''user@nextmail.com'', ''password'' \<mapsto> Str ''123456'']
   = Returned None"
  using authenticate_success_undefined
    [where en = "\<lparr>sql_error = (\<lambda>_. None), generated_id = ''7'', now_iso = ''2024-05-17T09:30:00.000Z'',
          is_email = (\<lambda>_. True), signIn = (\<lambda>_ _. None)\<rparr>"
       and prevState = None
       and formData = "[''email'' \<mapsto> Str ''user@nextmail.com'', ''password'' \<mapsto> Str ''123456'']"]
  by simp

section \<open>Validation of an invoice form\<close>

lemma FormSchema_amount_issue:
  assumes "parse_amount a = Inl msgs"
  shows "\<exists>errs. FormSchema_safeParse c a s = Inl errs \<and> errs ''amount'' = Some msgs"
  using assms
  by (auto simp: FormSchema_safeParse_def field_issue_def map_add_def split: sum.splits)

lemma FormSchema_status_issue:
  assumes "parse_status s = Inl msgs"
  shows "\<exists>errs. FormSchema_safeParse c a s = Inl errs \<and> errs ''status'' = Some msgs"
  using assms
  by (auto simp: FormSchema_safeParse_def field_issue_def map_add_def split: sum.splits)

lemma parse_amount_rejects:
  assumes "js_Number a = NaN \<or> js_le_zero (js_Number a)"
  shows "\<exists>msg. parse_amount a = Inl [msg]"
  using assms by (auto simp: parse_amount_def Let_def)

lemma parse_amount_le_zero:
  assumes "js_le_zero (js_Number a)"
  shows "parse_amount a = Inl [''Please enter an amount greater than $0.'']"
proof -
  have "js_Number a \<noteq> NaN" using assms by (cases "js_Number a") simp_all
  then show ?thesis using assms by (simp add: parse_amount_def Let_def)
qed

lemma parse_status_rejects:
  assumes "v \<noteq> Some (Str ''pending'')" and "v \<noteq> Some (Str ''paid'')"
  shows "\<exists>msg. parse_status v = Inl [msg]"
  using assms by (auto simp: parse_status_def split: option.splits form_entry.splits)

lemma invoice_validation_failure:
  assumes "FormSchema_safeParse (formData ''customerId'') (formData ''amount'') (formData ''status'')
    = Inl errs"
  shows "createInvoice en prevState formData w =
      (Returned \<lparr>errors = Some errs, message = Some ''Missing Fields. Failed to Create Invoice.''\<rparr>, w)"
    and "updateInvoice en id' prevState formData w =
      (Returned \<lparr>errors = Some errs, message = Some ''Missing Fields. Failed to Update Invoice.''\<rparr>, w)"
  using assms
  by (simp_all add: createInvoice_def updateInvoice_def CreateInvoice_safeParse_def
      UpdateInvoice_safeParse_def)

text \<open>
  C4. If the amount field is not numeric (\<^verbatim>\<open>Number\<close> of it is NaN) or is at most 0, then
  \<^verbatim>\<open>createInvoice\<close> and \<^verbatim>\<open>updateInvoice\<close> return, as an ordinary value, a result whose
  \<^verbatim>\<open>errors\<close> has a message for \<^verbatim>\<open>amount\<close> (for an amount at most 0, the schema's
  \<^verbatim>\<open>Please enter an amount greater than $0.\<close>) together with the generic message, and the
  world is untouched: no statement is sent to the store. The same holds with a message
  for \<^verbatim>\<open>status\<close> whenever the status field is anything but the string \<^verbatim>\<open>pending\<close> or the
  string \<^verbatim>\<open>paid\<close>.
\<close>

theorem invoice_validation_rejects:
  "(js_Number (formData ''amount'') = NaN \<or> js_le_zero (js_Number (formData ''amount'')) \<longrightarrow>
      (\<exists>errs msg.
         errs ''amount'' = Some [msg]
         \<and> (js_le_zero (js_Number (formData ''amount'')) \<longrightarrow>
              msg = ''Please enter an amount greater than $0.'')
         \<and> createInvoice en prevState formData w =
             (Returned \<lparr>errors = Some errs,
                        message = Some ''Missing Fields. Failed to Create Invoice.''\<rparr>, w)
         \<and> updateInvoice en id' prevState formData w =
             (Returned \<lparr>errors = Some errs,
                        message = Some ''Missing Fields. Failed to Update Invoice.''\<rparr>, w)))
   \<and> (formData ''status'' \<noteq> Some (Str ''pending'') \<and> formData ''status'' \<noteq> Some (Str ''paid'') \<longrightarrow>
      (\<exists>errs msg.
         errs ''status'' = Some [msg]
         \<and> createInvoice en prevState formData w =
             (Returned \<lparr>errors = Some errs,
                        message = Some ''Missing Fields. Failed to Create Invoice.''\<rparr>, w)
         \<and> updateInvoice en id' prevState formData w =
             (Returned \<lparr>errors = Some errs,
                        message = Some ''Missing Fields. Failed to Update Invoice.''\<rparr>, w)))"
proof (intro conjI impI)
  assume a: "js_Number (formData ''amount'') = NaN \<or> js_le_zero (js_Number (formData ''amount''))"
  from parse_amount_rejects [OF a] obtain msg
    where m: "parse_amount (formData ''amount'') = Inl [msg]" by blast
  from FormSchema_amount_issue [OF m] obtain errs
    where e: "FormSchema_safeParse (formData ''customerId'') (formData ''amount'') (formData ''status'')
        = Inl errs" "errs ''amount'' = Some [msg]"
    by blast
  have "js_le_zero (js_Number (formData ''amount'')) \<longrightarrow> msg = ''Please enter an amount greater than $0.''"
    using m parse_amount_le_zero [of "formData ''amount''"] by auto
  with e invoice_validation_failure [OF e(1)]
  show "\<exists>errs msg.
         errs ''amount'' = Some [msg]
         \<and> (js_le_zero (js_Number (formData ''amount'')) \<longrightarrow>
              msg = ''Please enter an amount greater than $0.'')
         \<and> createInvoice en prevState formData w =
             (Returned \<lparr>errors = Some errs,
                        message = Some ''Missing Fields. Failed to Create Invoice.''\<rparr>, w)
         \<and> updateInvoice en id' prevState formData w =
             (Returned \<lparr>errors = Some errs,
                        message = Some ''Missing Fields. Failed to Update Invoice.''\<rparr>, w)"
    by blast
next
  assume s: "formData ''status'' \<noteq> Some (Str ''pending'') \<and> formData ''status'' \<noteq> Some (Str ''paid'')"
  then obtain msg where m: "parse_status (formData ''status'') = Inl [msg]"
    using parse_status_rejects by blast
  from FormSchema_status_issue [OF m] obtain errs
    where e: "FormSchema_safeParse (formData ''customerId'') (formData ''amount'') (formData ''status'')
        = Inl errs" "errs ''status'' = Some [msg]"
    by blast
  with invoice_validation_failure [OF e(1)]
  show "\<exists>errs msg.
         errs ''status'' = Some [msg]
         \<and> createInvoice en prevState formData w =
             (Returned \<lparr>errors = Some errs,
                        message = Some ''Missing Fields. Failed to Create Invoice.''\<rparr>, w)
         \<and> updateInvoice en id' prevState formData w =
             (Returned \<lparr>errors = Some errs,
                        message = Some ''Missing Fields. Failed to Update Invoice.''\<rparr>, w)"
    by blast
qed

lemma js_Number_0: "js_Number (Some (Str ''0'')) = Fin 0"
  by (simp add: js_Number_def StringToNumber_def trim_def is_white_space_def unsigned_decimal_def
      is_digit_def digits_value_def digit_value_def exponent_part_def pow10_def fl_def Let_def)

lemma js_Number_abc: "js_Number (Some (Str ''abc'')) = NaN"
  by (simp add: js_Number_def StringToNumber_def trim_def is_white_space_def unsigned_decimal_def
      is_digit_def Let_def)

theorem invoice_validation_rejects_witness:
  "(\<exists>errs msg.
      errs ''amount'' = Some [msg]
      \<and> createInvoice
          \<lparr>sql_error = (\<lambda>_. None), generated_id = ''inv-1'', now_iso = ''2024-05-17T09:30:00.000Z'',
           is_email = (\<lambda>_. True), signIn = (\<lambda>_ _. None)\<rparr>
          \<lparr>errors = None, message = None\<rparr>
          [''customerId'' \<mapsto> Str ''c1'', ''amount'' \<mapsto> Str ''abc'', ''status'' \<mapsto> Str ''paid'']
          \<lparr>invoices = [], customers = [], sql_log = [], revalidated = []\<rparr>
        = (Returned \<lparr>errors = Some errs, message = Some ''Missing Fields. Failed to Create Invoice.''\<rparr>,
           \<lparr>invoices = [], customers = [], sql_log = [], revalidated = []\<rparr>)
      \<and> updateInvoice
          \<lparr>sql_error = (\<lambda>_. None), generated_id = ''inv-1'', now_iso = ''2024-05-17T09:30:00.000Z'',
           is_email = (\<lambda>_. True), signIn = (\<lambda>_ _. None)\<rparr>
          ''i1''
          \<lparr>errors = None, message = None\<rparr>
          [''customerId'' \<mapsto> Str ''c1'', ''amount'' \<mapsto> Str ''abc'', ''status'' \<mapsto> Str ''paid'']
          \<lparr>invoices = [], customers = [], sql_log = [], revalidated = []\<rparr>
        = (Returned \<lparr>errors = Some errs, message = Some ''Missing Fields. Failed to Update Invoice.''\<rparr>,
           \<lparr>invoices = [], customers = [], sql_log = [], revalidated = []\<rparr>))
   \<and> (\<exists>errs.
      errs ''amount'' = Some [''Please enter an amount greater than $0.'']
      \<and> createInvoice
          \<lparr>sql_error = (\<lambda>_. None), generated_id = ''inv-1'', now_iso = ''2024-05-17T09:30:00.000Z'',
           is_email = (\<lambda>_. True), signIn = (\<lambda>_ _. None)\<rparr>
          \<lparr>errors = None, message = None\<rparr>
          [''customerId'' \<mapsto> Str ''c1'', ''amount'' \<mapsto> Str ''0'', ''status'' \<mapsto> Str ''draft'']
          \<lparr>invoices = [], customers = [], sql_log = [], revalidated = []\<rparr>
        = (Returned \<lparr>errors = Some errs, message = Some ''Missing Fields. Failed to Create Invoice.''\<rparr>,
           \<lparr>invoices = [], customers = [], sql_log = [], revalidated = []\<rparr>))
   \<and> (\<exists>errs msg.
      errs ''status'' = Some [msg]
      \<and> updateInvoice
          \<lparr>sql_error = (\<lambda>_. None), generated_id = ''inv-1'', now_iso = ''2024-05-17T09:30:00.000Z'',
           is_email = (\<lambda>_. True), signIn = (\<lambda>_ _. None)\<rparr>
          ''i1''
          \<lparr>errors = None, message = None\<rparr>
          [''customerId'' \<mapsto> Str ''c1'', ''amount'' \<mapsto> Str ''0'', ''status'' \<mapsto> Str ''draft'']
          \<lparr>invoices = [], customers = [], sql_log = [], revalidated = []\<rparr>
        = (Returned \<lparr>errors = Some errs, message = Some ''Missing Fields. Failed to Update Invoice.''\<rparr>,
           \<lparr>invoices = [], customers = [], sql_log = [], revalidated = []\<rparr>))"
proof -
  let ?en = "\<lparr>sql_error = (\<lambda>_. None), generated_id = ''inv-1'', now_iso = ''2024-05-17T09:30:00.000Z'',
           is_email = (\<lambda>_. True), signIn = (\<lambda>_ _. None)\<rparr>"
  let ?p = "\<lparr>errors = None, message = None\<rparr>"
  let ?w = "\<lparr>invoices = [], customers = [], sql_log = [], revalidated = []\<rparr>"
  let ?f1 = "[''customerId'' \<mapsto> Str ''c1'', ''amount'' \<mapsto> Str ''abc'', ''status'' \<mapsto> Str ''paid'']"
  let ?f2 = "[''customerId'' \<mapsto> Str ''c1'', ''amount'' \<mapsto> Str ''0'', ''status'' \<mapsto> Str ''draft'']"
  have n1: "js_Number (?f1 ''amount'') = NaN" using js_Number_abc by simp
  have n2: "js_le_zero (js_Number (?f2 ''amount''))" using js_Number_0 by simp
  have s2: "?f2 ''status'' \<noteq> Some (Str ''pending'') \<and> ?f2 ''status'' \<noteq> Some (Str ''paid'')" by simp
  from invoice_validation_rejects [of ?f1 ?en ?p ?w "''i1''"] n1
  have a: "\<exists>errs msg. errs ''amount'' = Some [msg]
      \<and> createInvoice ?en ?p ?f1 ?w
        = (Returned \<lparr>errors = Some errs, message = Some ''Missing Fields. Failed to Create Invoice.''\<rparr>, ?w)
      \<and> updateInvoice ?en ''i1'' ?p ?f1 ?w
        = (Returned \<lparr>errors = Some errs, message = Some ''Missing Fields. Failed to Update Invoice.''\<rparr>, ?w)"
    by blast
  from invoice_validation_rejects [of ?f2 ?en ?p ?w "''i1''"] n2
  have b: "\<exists>errs. errs ''amount'' = Some [''Please enter an amount greater than $0.'']
      \<and> createInvoice ?en ?p ?f2 ?w
        = (Returned \<lparr>errors = Some errs, message = Some ''Missing Fields. Failed to Create Invoice.''\<rparr>, ?w)"
    by blast
  from invoice_validation_rejects [of ?f2 ?en ?p ?w "''i1''"] s2
  have c: "\<exists>errs msg. errs ''status'' = Some [msg]
      \<and> updateInvoice ?en ''i1'' ?p ?f2 ?w
        = (Returned \<lparr>errors = Some errs, message = Some ''Missing Fields. Failed to Update Invoice.''\<rparr>, ?w)"
    by blast
  from a b c show ?thesis by blast
qed

section \<open>Effects after a write\<close>

lemma createInvoice_wrote:
  assumes "wrote en w (snd (createInvoice en prevState formData w))"
  shows "fst (createInvoice en prevState formData w) = Redirected ''/dashboard/invoices''
    \<and> revalidated (snd (createInvoice en prevState formData w))
        = revalidated w @ [''/dashboard/invoices'']"
  using assms
  by (auto simp: createInvoice_def sql_def Let_def wrote_def issued_def revalidatePath_def
      split: sum.splits option.splits)

lemma updateInvoice_wrote:
  assumes "wrote en w (snd (updateInvoice en id' prevState formData w))"
  shows "fst (updateInvoice en id' prevState formData w) = Redirected ''/dashboard/invoices''
    \<and> revalidated (snd (updateInvoice en id' prevState formData w))
        = revalidated w @ [''/dashboard/invoices'']"
  using assms
  by (auto simp: updateInvoice_def sql_def Let_def wrote_def issued_def revalidatePath_def
      split: sum.splits option.splits)

lemma deleteInvoice_wrote:
  assumes "wrote en w (snd (deleteInvoice en id' w))"
  shows "fst (deleteInvoice en id' w) = Returned (message_only ''Deleted Invoice.'')
    \<and> revalidated (snd (deleteInvoice en id' w)) = revalidated w @ [''/dashboard/invoices'']"
  using assms
  by (auto simp: deleteInvoice_def sql_def Let_def wrote_def issued_def revalidatePath_def
      message_only_def split: sum.splits option.splits)

lemma createCustomer_wrote:
  assumes "wrote en w (snd (createCustomer en prevState formData w))"
  shows "fst (createCustomer en prevState formData w) = Redirected ''/dashboard/customers''
    \<and> revalidated (snd (createCustomer en prevState formData w))
        = revalidated w @ [''/dashboard/customers'']"
proof (cases "CreateCustomer_safeParse (is_email en) (formData ''name'') (formData ''email'')")
  case (Inl errs)
  with assms show ?thesis
    by (simp add: createCustomer_def wrote_def issued_def)
next
  case (Inr d)
  show ?thesis
  proof (cases rule: isEmailUnique_cases [of en "data_email d" None w])
    case (failed err q)
    with assms Inr show ?thesis
      by (simp add: createCustomer_def wrote_def issued_def)
  next
    case (answered b q)
    with assms Inr show ?thesis
      by (auto simp: createCustomer_def sql_def Let_def wrote_def issued_def revalidatePath_def
          split: option.splits if_splits)
  qed
qed

lemma updateCustomer_wrote:
  assumes "wrote en w (snd (updateCustomer en id' prevState formData w))"
  shows "fst (updateCustomer en id' prevState formData w) = Redirected ''/dashboard/customers''
    \<and> revalidated (snd (updateCustomer en id' prevState formData w))
        = revalidated w @ [''/dashboard/customers'']"
proof (cases "UpdateCustomer_safeParse (is_email en) (formData ''name'') (formData ''email'')")
  case (Inl errs)
  with assms show ?thesis
    by (simp add: updateCustomer_def wrote_def issued_def)
next
  case (Inr d)
  show ?thesis
  proof (cases rule: isEmailUnique_cases [of en "data_email d" "Some id'" w])
    case (failed err q)
    with assms Inr show ?thesis
      by (simp add: updateCustomer_def wrote_def issued_def)
  next
    case (answered b q)
    with assms Inr show ?thesis
      by (auto simp: updateCustomer_def sql_def Let_def wrote_def issued_def revalidatePath_def
          split: option.splits if_splits)
  qed
qed

lemma deleteCustomer_wrote:
  assumes "wrote en w (snd (deleteCustomer en id' w))"
  shows "fst (deleteCustomer en id' w) = Returned (message_only ''Deleted Customer.'')
    \<and> revalidated (snd (deleteCustomer en id' w)) = revalidated w @ [''/dashboard/customers'']"
  using assms
  by (auto simp: deleteCustomer_def sql_def Let_def wrote_def issued_def revalidatePath_def
      message_only_def split: option.splits if_splits)

text \<open>
  C7. Whenever an action has sent a writing statement that the SQL client did not reject,
  it has invalidated the listing path of the table it wrote
  (\<^verbatim>\<open>/dashboard/invoices\<close> or \<^verbatim>\<open>/dashboard/customers\<close>), exactly once; \<^verbatim>\<open>createInvoice\<close>,
  \<^verbatim>\<open>updateInvoice\<close>, \<^verbatim>\<open>createCustomer\<close> and \<^verbatim>\<open>updateCustomer\<close> then end in a redirect to
  that path and return nothing to the caller, while \<^verbatim>\<open>deleteInvoice\<close> and
  \<^verbatim>\<open>deleteCustomer\<close> return a result that holds only a message.
\<close>

theorem successful_write_effects:
  "(wrote en w (snd (createInvoice en prevState formData w)) \<longrightarrow>
      fst (createInvoice en prevState formData w) = Redirected ''/dashboard/invoices''
      \<and> revalidated (snd (createInvoice en prevState formData w))
          = revalidated w @ [''/dashboard/invoices''])
   \<and> (wrote en w (snd (updateInvoice en id' prevState formData w)) \<longrightarrow>
      fst (updateInvoice en id' prevState formData w) = Redirected ''/dashboard/invoices''
      \<and> revalidated (snd (updateInvoice en id' prevState formData w))
          = revalidated w @ [''/dashboard/invoices''])
   \<and> (wrote en w (snd (createCustomer en prevState formData w)) \<longrightarrow>
      fst (createCustomer en prevState formData w) = Redirected ''/dashboard/customers''
      \<and> revalidated (snd (createCustomer en prevState formData w))
          = revalidated w @ [''/dashboard/customers''])
   \<and> (wrote en w (snd (updateCustomer en id' prevState formData w)) \<longrightarrow>
      fst (updateCustomer en id' prevState formData w) = Redirected ''/dashboard/customers''
      \<and> revalidated (snd (updateCustomer en id' prevState formData w))
          = revalidated w @ [''/dashboard/customers''])
   \<and> (wrote en w (snd (deleteInvoice en id' w)) \<longrightarrow>
      fst (deleteInvoice en id' w) = Returned (message_only ''Deleted Invoice.'')
      \<and> revalidated (snd (deleteInvoice en id' w)) = revalidated w @ [''/dashboard/invoices''])
   \<and> (wrote en w (snd (deleteCustomer en id' w)) \<longrightarrow>
      fst (deleteCustomer en id' w) = Returned (message_only ''Deleted Customer.'')
      \<and> revalidated (snd (deleteCustomer en id' w)) = revalidated w @ [''/dashboard/customers''])"
  using createInvoice_wrote [of en w prevState formData]
    updateInvoice_wrote [of en w id' prevState formData]
    createCustomer_wrote [of en w prevState formData]
    updateCustomer_wrote [of en w id' prevState formData]
    deleteInvoice_wrote [of en w id'] deleteCustomer_wrote [of en w id']
  by blast

theorem successful_write_effects_witness:
  "fst (createInvoice
      \<lparr>sql_error = (\<lambda>_. None), generated_id = ''n1'', now_iso = ''2024-05-17T09:30:00.000Z'',
       is_email = (\<lambda>s. CHR ''@'' \<in> set s), signIn = (\<lambda>_ _. None)\<rparr>
      \<lparr>errors = None, message = None\<rparr>
      [''customerId'' \<mapsto> Str ''c1'', ''amount'' \<mapsto> Str ''49.99'', ''status'' \<mapsto> Str ''pending'',
       ''name'' \<mapsto> Str ''Bob'', ''email'' \<mapsto> Str ''b@x.com'']
      \<lparr>invoices = [], customers = [], sql_log = [], revalidated = []\<rparr>)
    = Redirected ''/dashboard/invoices''
   \<and> revalidated (snd (updateInvoice
      \<lparr>sql_error = (\<lambda>_. None), generated_id = ''n1'', now_iso = ''2024-05-17T09:30:00.000Z'',
       is_email = (\<lambda>s. CHR ''@'' \<in> set s), signIn = (\<lambda>_ _. None)\<rparr>
      ''1''
      \<lparr>errors = None, message = None\<rparr>
      [''customerId'' \<mapsto> Str ''c1'', ''amount'' \<mapsto> Str ''49.99'', ''status'' \<mapsto> Str ''pending'',
       ''name'' \<mapsto> Str ''Bob'', ''email'' \<mapsto> Str ''b@x.com'']
      \<lparr>invoices = [], customers = [], sql_log = [], revalidated = []\<rparr>))
    = [''/dashboard/invoices'']
   \<and> fst (createCustomer
      \<lparr>sql_error = (\<lambda>_. None), generated_id = ''n1'', now_iso = ''2024-05-17T09:30:00.000Z'',
       is_email = (\<lambda>s. CHR ''@'' \<in> set s), signIn = (\<lambda>_ _. None)\<rparr>
      \<lparr>errors = None, message = None\<rparr>
      [''customerId'' \<mapsto> Str ''c1'', ''amount'' \<mapsto> Str ''49.99'', ''status'' \<mapsto> Str ''pending'',
       ''name'' \<mapsto> Str ''Bob'', ''email'' \<mapsto> Str ''b@x.com'']
      \<lparr>invoices = [], customers = [], sql_log = [], revalidated = []\<rparr>)
    = Redirected ''/dashboard/customers''
   \<and> fst (updateCustomer
      \<lparr>sql_error = (\<lambda>_. None), generated_id = ''n1'', now_iso = ''2024-05-17T09:30:00.000Z'',
       is_email = (\<lambda>s. CHR ''@'' \<in> set s), signIn = (\<lambda>_ _. None)\<rparr>
      ''1''
      \<lparr>errors = None, message = None\<rparr>
      [''customerId'' \<mapsto> Str ''c1'', ''amount'' \<mapsto> Str ''49.99'', ''status'' \<mapsto> Str ''pending'',
       ''name'' \<mapsto> Str ''Bob'', ''email'' \<mapsto> Str ''b@x.com'']
      \<lparr>invoices = [], customers = [], sql_log = [], revalidated = []\<rparr>)
    = Redirected ''/dashboard/customers''
   \<and> deleteInvoice
      \<lparr>sql_error = (\<lambda>_. None), generated_id = ''n1'', now_iso = ''2024-05-17T09:30:00.000Z'',
       is_email = (\<lambda>s. CHR ''@'' \<in> set s), signIn = (\<lambda>_ _. None)\<rparr>
      ''1''
      \<lparr>invoices = [], customers = [], sql_log = [], revalidated = []\<rparr>
    = (Returned (message_only ''Deleted Invoice.''),
       \<lparr>invoices = [], customers = [], sql_log = [DeleteInvoiceById ''1''],
        revalidated = [''/dashboard/invoices'']\<rparr>)
   \<and> deleteCustomer
      \<lparr>sql_error = (\<lambda>_. None), generated_id = ''n1'', now_iso = ''2024-05-17T09:30:00.000Z'',
       is_email = (\<lambda>s. CHR ''@'' \<in> set s), signIn = (\<lambda>_ _. None)\<rparr>
      ''1''
      \<lparr>invoices = [], customers = [], sql_log = [], revalidated = []\<rparr>
    = (Returned (message_only ''Deleted Customer.''),
       \<lparr>invoices = [], customers = [],
        sql_log = [InvoiceExistsFor ''1'', DeleteCustomerById ''1''],
        revalidated = [''/dashboard/customers'']\<rparr>)"
proof -
  let ?en = "\<lparr>sql_error = (\<lambda>_. None), generated_id = ''n1'', now_iso = ''2024-05-17T09:30:00.000Z'',
       is_email = (\<lambda>s. CHR ''@'' \<in> set s), signIn = (\<lambda>_ _. None)\<rparr>"
  let ?p = "\<lparr>errors = None, message = None\<rparr>"
  let ?f = "[''customerId'' \<mapsto> Str ''c1'', ''amount'' \<mapsto> Str ''49.99'', ''status'' \<mapsto> Str ''pending'',
       ''name'' \<mapsto> Str ''Bob'', ''email'' \<mapsto> Str ''b@x.com'']"
  let ?w = "\<lparr>invoices = [], customers = [], sql_log = [], revalidated = []\<rparr>"
  have p: "FormSchema_safeParse (Some (Str ''c1'')) (Some (Str ''49.99'')) (Some (Str ''pending''))
    = Inr \<lparr>data_customerId = ''c1'', data_amount = Fin (7035467042882847 / 140737488355328),
           data_status = ''pending''\<rparr>"
    by (rule FormSchema_49_99) simp_all
  have c: "CustomerFormSchema_safeParse (\<lambda>s. CHR ''@'' \<in> set s) (Some (Str ''Bob''))
      (Some (Str ''b@x.com''))
    = Inr \<lparr>data_name = ''Bob'', data_email = ''b@x.com''\<rparr>"
    by (simp add: CustomerFormSchema_safeParse_def parse_name_def parse_email_def trim_def
        is_white_space_def)
  have w1: "wrote ?en ?w (snd (createInvoice ?en ?p ?f ?w))"
    by (simp add: createInvoice_def CreateInvoice_safeParse_def p times_100_49_99 sql_def Let_def
        wrote_def issued_def revalidatePath_def del: js_times.simps)
  have w2: "wrote ?en ?w (snd (updateInvoice ?en ''1'' ?p ?f ?w))"
    by (simp add: updateInvoice_def UpdateInvoice_safeParse_def p times_100_49_99 sql_def Let_def
        wrote_def issued_def revalidatePath_def del: js_times.simps)
  have w3: "wrote ?en ?w (snd (createCustomer ?en ?p ?f ?w))"
    by (simp add: createCustomer_def CreateCustomer_safeParse_def c isEmailUnique_def sql_def
        Let_def wrote_def issued_def revalidatePath_def)
  have w4: "wrote ?en ?w (snd (updateCustomer ?en ''1'' ?p ?f ?w))"
    by (simp add: updateCustomer_def UpdateCustomer_safeParse_def c isEmailUnique_def sql_def
        Let_def wrote_def issued_def revalidatePath_def)
  have w5: "wrote ?en ?w (snd (deleteInvoice ?en ''1'' ?w))"
    by (simp add: deleteInvoice_def sql_def Let_def wrote_def issued_def revalidatePath_def)
  have w6: "wrote ?en ?w (snd (deleteCustomer ?en ''1'' ?w))"
    by (simp add: deleteCustomer_def sql_def Let_def wrote_def issued_def revalidatePath_def)
  have d5: "snd (deleteInvoice ?en ''1'' ?w)
      = \<lparr>invoices = [], customers = [], sql_log = [DeleteInvoiceById ''1''],
         revalidated = [''/dashboard/invoices'']\<rparr>"
    by (simp add: deleteInvoice_def sql_def Let_def revalidatePath_def)
  have d6: "snd (deleteCustomer ?en ''1'' ?w)
      = \<lparr>invoices = [], customers = [],
         sql_log = [InvoiceExistsFor ''1'', DeleteCustomerById ''1''],
         revalidated = [''/dashboard/customers'']\<rparr>"
    by (simp add: deleteCustomer_def sql_def Let_def revalidatePath_def)
  from successful_write_effects [of ?en ?w ?p ?f "''1''"] w1 w2 w3 w4 w5 w6
  have "fst (createInvoice ?en ?p ?f ?w) = Redirected ''/dashboard/invoices''"
    and "revalidated (snd (updateInvoice ?en ''1'' ?p ?f ?w)) = revalidated ?w @ [''/dashboard/invoices'']"
    and "fst (createCustomer ?en ?p ?f ?w) = Redirected ''/dashboard/customers''"
    and "fst (updateCustomer ?en ''1'' ?p ?f ?w) = Redirected ''/dashboard/customers''"
    and "fst (deleteInvoice ?en ''1'' ?w) = Returned (message_only ''Deleted Invoice.'')"
    and "fst (deleteCustomer ?en ''1'' ?w) = Returned (message_only ''Deleted Customer.'')"
    by blast+
  then show ?thesis
    using d5 d6 by (simp add: prod_eq_iff)
qed

section \<open>What an invoice update leaves alone\<close>

lemma list_all2_update_rows:
  "list_all2 (\<lambda>r r'. inv_id r' = inv_id r \<and> inv_date r' = inv_date r \<and> (inv_id r \<noteq> i \<longrightarrow> r' = r))
     rows
     (map (\<lambda>r. if inv_id r = i
        then r\<lparr>inv_customer_id := c, inv_amount := a, inv_status := s\<rparr> else r) rows)"
  by (induction rows) simp_all

lemma list_all2_same_rows:
  "list_all2 (\<lambda>r r'. inv_id r' = inv_id r \<and> inv_date r' = inv_date r \<and> (inv_id r \<noteq> i \<longrightarrow> r' = r))
     rows rows"
  by (simp add: list_all2_same)

text \<open>
  C8. Whatever the form holds and whether or not the SQL client rejects the statement,
  \<^verbatim>\<open>updateInvoice\<close> leaves the invoices table with the same rows in the same places, each
  with the id and the date it had, and each row of another id unchanged altogether; the
  customers table is unchanged; and the only statement it ever sends is the
  \<^verbatim>\<open>UPDATE\<close> for the given id, which binds a customer id, an amount and a status and no
  date.
\<close>

theorem updateInvoice_keeps_dates:
  "list_all2 (\<lambda>r r'. inv_id r' = inv_id r \<and> inv_date r' = inv_date r \<and> (inv_id r \<noteq> id' \<longrightarrow> r' = r))
     (invoices w) (invoices (snd (updateInvoice en id' prevState formData w)))
   \<and> customers (snd (updateInvoice en id' prevState formData w)) = customers w
   \<and> (\<forall>st \<in> set (issued w (snd (updateInvoice en id' prevState formData w))).
        \<exists>c a s. st = UpdateInvoiceById c a s id')"
proof (cases "UpdateInvoice_safeParse (formData ''customerId'') (formData ''amount'') (formData ''status'')")
  case (Inl errs)
  then show ?thesis
    by (simp add: updateInvoice_def issued_def list_all2_same_rows)
next
  case (Inr d)
  show ?thesis
  proof (cases "sql_error en (UpdateInvoiceById (data_customerId d)
      (js_times (data_amount d) (Fin 100)) (data_status d) id')")
    case None
    with Inr show ?thesis
      by (simp add: updateInvoice_def sql_def Let_def issued_def revalidatePath_def
          list_all2_update_rows)
  next
    case (Some err)
    with Inr show ?thesis
      by (simp add: updateInvoice_def sql_def Let_def issued_def list_all2_same_rows)
  qed
qed

theorem updateInvoice_keeps_dates_witness:
  "invoices (snd (updateInvoice
      \<lparr>sql_error = (\<lambda>_. None), generated_id = ''n1'', now_iso = ''2024-05-17T09:30:00.000Z'',
       is_email = (\<lambda>s. CHR ''@'' \<in> set s), signIn = (\<lambda>_ _. None)\<rparr>
      ''i1''
      \<lparr>errors = None, message = None\<rparr>
      [''customerId'' \<mapsto> Str ''c2'', ''amount'' \<mapsto> Str ''49.99'', ''status'' \<mapsto> Str ''pending'']
      \<lparr>invoices = [\<lparr>inv_id = ''i1'', inv_customer_id = ''c1'', inv_amount = Fin 1500,
                     inv_status = ''paid'', inv_date = ''2023-12-06''\<rparr>,
                    \<lparr>inv_id = ''i2'', inv_customer_id = ''c1'', inv_amount = Fin 700,
                     inv_status = ''paid'', inv_date = ''2024-01-15''\<rparr>],
       customers = [], sql_log = [], revalidated = []\<rparr>))
   = [\<lparr>inv_id = ''i1'', inv_customer_id = ''c2'', inv_amount = Fin 4999,
        inv_status = ''pending'', inv_date = ''2023-12-06''\<rparr>,
      \<lparr>inv_id = ''i2'', inv_customer_id = ''c1'', inv_amount = Fin 700,
        inv_status = ''paid'', inv_date = ''2024-01-15''\<rparr>]"
proof -
  let ?en = "\<lparr>sql_error = (\<lambda>_. None), generated_id = ''n1'', now_iso = ''2024-05-17T09:30:00.000Z'',
       is_email = (\<lambda>s. CHR ''@'' \<in> set s), signIn = (\<lambda>_ _. None)\<rparr>"
  let ?p = "\<lparr>errors = None, message = None\<rparr>"
  let ?f = "[''customerId'' \<mapsto> Str ''c2'', ''amount'' \<mapsto> Str ''49.99'', ''status'' \<mapsto> Str ''pending'']"
  let ?r1 = "\<lparr>inv_id = ''i1'', inv_customer_id = ''c1'', inv_amount = Fin 1500,
                     inv_status = ''paid'', inv_date = ''2023-12-06''\<rparr>"
  let ?r2 = "\<lparr>inv_id = ''i2'', inv_customer_id = ''c1'', inv_amount = Fin 700,
                     inv_status = ''paid'', inv_date = ''2024-01-15''\<rparr>"
  let ?w = "\<lparr>invoices = [?r1, ?r2], customers = [], sql_log = [], revalidated = []\<rparr>"
  let ?rows = "invoices (snd (updateInvoice ?en ''i1'' ?p ?f ?w))"
  have p: "FormSchema_safeParse (Some (Str ''c2'')) (Some (Str ''49.99'')) (Some (Str ''pending''))
    = Inr \<lparr>data_customerId = ''c2'', data_amount = Fin (7035467042882847 / 140737488355328),
           data_status = ''pending''\<rparr>"
    by (rule FormSchema_49_99) simp_all
  have first: "\<exists>r. ?rows = [r, ?r2] \<and> inv_id r = ''i1'' \<and> inv_date r = ''2023-12-06''"
    using updateInvoice_keeps_dates [of "''i1''" ?w ?en ?p ?f]
    by (auto simp: list_all2_Cons1)
  have "hd ?rows = \<lparr>inv_id = ''i1'', inv_customer_id = ''c2'', inv_amount = Fin 4999,
        inv_status = ''pending'', inv_date = ''2023-12-06''\<rparr>"
    by (simp add: updateInvoice_def UpdateInvoice_safeParse_def p times_100_49_99 sql_def Let_def
        revalidatePath_def del: js_times.simps)
  with first show ?thesis by auto
qed

section \<open>Messages of a failed customer update\<close>

text \<open>
  C10. When the form does not pass the schema, \<^verbatim>\<open>updateCustomer\<close> returns the field
  errors with the message \<^verbatim>\<open>Missing Fields. Failed to Create Customer.\<close>; when the form
  passes and \<^verbatim>\<open>isEmailUnique\<close> answers false, it returns the email error with that same
  message. The text says Create although the action is an update.
\<close>

theorem updateCustomer_failure_message:
  "(\<forall>errs. UpdateCustomer_safeParse (is_email en) (formData ''name'') (formData ''email'') = Inl errs \<longrightarrow>
      updateCustomer en id' prevState formData w =
        (Returned \<lparr>errors = Some errs,
                   message = Some ''Missing Fields. Failed to Create Customer.''\<rparr>, w))
   \<and> (\<forall>d w1. UpdateCustomer_safeParse (is_email en) (formData ''name'') (formData ''email'') = Inr d
        \<and> isEmailUnique en (data_email d) (Some id') w = (Inr False, w1) \<longrightarrow>
      updateCustomer en id' prevState formData w =
        (Returned \<lparr>errors = Some [''email'' \<mapsto> [''Email is already is use.'']],
                   message = Some ''Missing Fields. Failed to Create Customer.''\<rparr>, w1))"
  by (simp add: updateCustomer_def)

theorem updateCustomer_failure_message_witness:
  "updateCustomer
     \<lparr>sql_error = (\<lambda>_. None), generated_id = ''7'', now_iso = ''2024-05-17T09:30:00.000Z'',
      is_email = (\<lambda>s. CHR ''@'' \<in> set s), signIn = (\<lambda>_ _. None)\<rparr>
     ''5''
     \<lparr>errors = None, message = None\<rparr>
     [''name'' \<mapsto> Str ''  '', ''email'' \<mapsto> Str ''a@x.com'']
     \<lparr>invoices = [],
      customers = [\<lparr>cust_id = ''9'', cust_name = ''Ann'', cust_email = ''a@x.com'', cust_image_url = []\<rparr>],
      sql_log = [], revalidated = []\<rparr>
   = (Returned \<lparr>errors = Some [''name'' \<mapsto> [''Name is required'']],
                message = Some ''Missing Fields. Failed to Create Customer.''\<rparr>,
      \<lparr>invoices = [],
       customers = [\<lparr>cust_id = ''9'', cust_name = ''Ann'', cust_email = ''a@x.com'', cust_image_url = []\<rparr>],
       sql_log = [], revalidated = []\<rparr>)
   \<and> updateCustomer
     \<lparr>sql_error = (\<lambda>_. None), generated_id = ''7'', now_iso = ''2024-05-17T09:30:00.000Z'',
      is_email = (\<lambda>s. CHR ''@'' \<in> set s), signIn = (\<lambda>_ _. None)\<rparr>
     ''5''
     \<lparr>errors = None, message = None\<rparr>
     [''name'' \<mapsto> Str ''Bob'', ''email'' \<mapsto> Str ''a@x.com'']
     \<lparr>invoices = [],
      customers = [\<lparr>cust_id = ''9'', cust_name = ''Ann'', cust_email = ''a@x.com'', cust_image_url = []\<rparr>],
      sql_log = [], revalidated = []\<rparr>
   = (Returned \<lparr>errors = Some [''email'' \<mapsto> [''Email is already is use.'']],
                message = Some ''Missing Fields. Failed to Create Customer.''\<rparr>,
      \<lparr>invoices = [],
       customers = [\<lparr>cust_id = ''9'', cust_name = ''Ann'', cust_email = ''a@x.com'', cust_image_url = []\<rparr>],
       sql_log = [EmailExistsExcept ''a@x.com'' ''5''], revalidated = []\<rparr>)"
proof -
  let ?en = "\<lparr>sql_error = (\<lambda>_. None), generated_id = ''7'', now_iso = ''2024-05-17T09:30:00.000Z'',
      is_email = (\<lambda>s. CHR ''@'' \<in> set s), signIn = (\<lambda>_ _. None)\<rparr>"
  let ?p = "\<lparr>errors = None, message = None\<rparr>"
  let ?f1 = "[''name'' \<mapsto> Str ''  '', ''email'' \<mapsto> Str ''a@x.com'']"
  let ?f2 = "[''name'' \<mapsto> Str ''Bob'', ''email'' \<mapsto> Str ''a@x.com'']"
  let ?w = "\<lparr>invoices = [],
      customers = [\<lparr>cust_id = ''9'', cust_name = ''Ann'', cust_email = ''a@x.com'', cust_image_url = []\<rparr>],
      sql_log = [], revalidated = []\<rparr>"
  have v1: "UpdateCustomer_safeParse (is_email ?en) (?f1 ''name'') (?f1 ''email'')
      = Inl [''name'' \<mapsto> [''Name is required'']]"
    by (simp add: UpdateCustomer_safeParse_def CustomerFormSchema_safeParse_def parse_name_def
        parse_email_def trim_def is_white_space_def field_issue_def)
  have v2: "UpdateCustomer_safeParse (is_email ?en) (?f2 ''name'') (?f2 ''email'')
      = Inr \<lparr>data_name = ''Bob'', data_email = ''a@x.com''\<rparr>"
    by (simp add: UpdateCustomer_safeParse_def CustomerFormSchema_safeParse_def parse_name_def
        parse_email_def trim_def is_white_space_def)
  have u2: "isEmailUnique ?en (data_email \<lparr>data_name = ''Bob'', data_email = ''a@x.com''\<rparr>) (Some ''5'') ?w
      = (Inr False, ?w\<lparr>sql_log := [EmailExistsExcept ''a@x.com'' ''5'']\<rparr>)"
    by (simp add: isEmailUnique_def sql_def Let_def)
  from updateCustomer_failure_message [of ?en ?f1 "''5''" ?p ?w] v1
  have a: "updateCustomer ?en ''5'' ?p ?f1 ?w =
      (Returned \<lparr>errors = Some [''name'' \<mapsto> [''Name is required'']],
                 message = Some ''Missing Fields. Failed to Create Customer.''\<rparr>, ?w)"
    by blast
  from updateCustomer_failure_message [of ?en ?f2 "''5''" ?p ?w] v2 u2
  have b: "updateCustomer ?en ''5'' ?p ?f2 ?w =
      (Returned \<lparr>errors = Some [''email'' \<mapsto> [''Email is already is use.'']],
                 message = Some ''Missing Fields. Failed to Create Customer.''\<rparr>,
       ?w\<lparr>sql_log := [EmailExistsExcept ''a@x.com'' ''5'']\<rparr>)"
    by blast
  from a b show ?thesis by simp
qed

section \<open>A failing store\<close>

text \<open>
  What the \<^verbatim>\<open>try\<close> blocks do catch: when the SQL client rejects the writing statement of
  any of the six actions, or the guard query of \<^verbatim>\<open>deleteCustomer\<close>, the action returns its
  \<^verbatim>\<open>Database Error\<close> message, and neither invalidates a path nor redirects.
\<close>

lemma rejected_createInvoice:
  assumes "\<exists>st \<in> set (issued w (snd (createInvoice en prevState formData w))). sql_error en st \<noteq> None"
  shows "fst (createInvoice en prevState formData w)
        = Returned (message_only ''Database Error: Failed to Create Invoice.'')
      \<and> revalidated (snd (createInvoice en prevState formData w)) = revalidated w"
  using assms
  by (auto simp: createInvoice_def sql_def Let_def issued_def revalidatePath_def message_only_def
      split: sum.splits option.splits)

lemma rejected_updateInvoice:
  assumes "\<exists>st \<in> set (issued w (snd (updateInvoice en id' prevState formData w))). sql_error en st \<noteq> None"
  shows "fst (updateInvoice en id' prevState formData w)
        = Returned (message_only ''Database Error: Failed to Update Invoice.'')
      \<and> revalidated (snd (updateInvoice en id' prevState formData w)) = revalidated w"
  using assms
  by (auto simp: updateInvoice_def sql_def Let_def issued_def revalidatePath_def message_only_def
      split: sum.splits option.splits)

lemma rejected_deleteInvoice:
  assumes "\<exists>st \<in> set (issued w (snd (deleteInvoice en id' w))). sql_error en st \<noteq> None"
  shows "fst (deleteInvoice en id' w)
        = Returned (message_only ''Database Error: Failed to Delete Invoice.'')
      \<and> revalidated (snd (deleteInvoice en id' w)) = revalidated w"
  using assms
  by (auto simp: deleteInvoice_def sql_def Let_def issued_def revalidatePath_def message_only_def
      split: option.splits)

lemma rejected_deleteCustomer:
  assumes "\<exists>st \<in> set (issued w (snd (deleteCustomer en id' w))). sql_error en st \<noteq> None"
  shows "fst (deleteCustomer en id' w)
        = Returned (message_only ''Database Error: Failed to Delete Customer.'')
      \<and> revalidated (snd (deleteCustomer en id' w)) = revalidated w"
  using assms
  by (auto simp: deleteCustomer_def sql_def Let_def issued_def revalidatePath_def message_only_def
      split: option.splits if_splits)

lemma rejected_createCustomer:
  assumes a: "\<exists>st \<in> set (issued w (snd (createCustomer en prevState formData w))).
        is_write st \<and> sql_error en st \<noteq> None"
  shows "fst (createCustomer en prevState formData w)
        = Returned (message_only ''Database Error: Failed to Create Customer.'')
      \<and> revalidated (snd (createCustomer en prevState formData w)) = revalidated w"
proof (cases "CreateCustomer_safeParse (is_email en) (formData ''name'') (formData ''email'')")
  case (Inl errs)
  with a show ?thesis by (simp add: createCustomer_def issued_def)
next
  case (Inr d)
  show ?thesis
  proof (cases rule: isEmailUnique_cases [of en "data_email d" None w])
    case (failed err q)
    with a Inr show ?thesis by (simp add: createCustomer_def issued_def)
  next
    case (answered b q)
    with a Inr show ?thesis
      by (auto simp: createCustomer_def sql_def Let_def issued_def revalidatePath_def
          message_only_def split: option.splits if_splits)
  qed
qed

lemma rejected_updateCustomer:
  assumes a: "\<exists>st \<in> set (issued w (snd (updateCustomer en id' prevState formData w))).
        is_write st \<and> sql_error en st \<noteq> None"
  shows "fst (updateCustomer en id' prevState formData w)
        = Returned (message_only ''Database Error: Failed to Update Customer.'')
      \<and> revalidated (snd (updateCustomer en id' prevState formData w)) = revalidated w"
proof (cases "UpdateCustomer_safeParse (is_email en) (formData ''name'') (formData ''email'')")
  case (Inl errs)
  with a show ?thesis by (simp add: updateCustomer_def issued_def)
next
  case (Inr d)
  show ?thesis
  proof (cases rule: isEmailUnique_cases [of en "data_email d" "Some id'" w])
    case (failed err q)
    with a Inr show ?thesis by (simp add: updateCustomer_def issued_def)
  next
    case (answered b q)
    with a Inr show ?thesis
      by (auto simp: updateCustomer_def sql_def Let_def issued_def revalidatePath_def
          message_only_def split: option.splits if_splits)
  qed
qed

text \<open>
  What they do not: whenever the uniqueness query is rejected, \<^verbatim>\<open>createCustomer\<close> and
  \<^verbatim>\<open>updateCustomer\<close> throw the client's error.
\<close>

lemma rejected_uniqueness_query_throws:
  assumes "CustomerFormSchema_safeParse (is_email en) (formData ''name'') (formData ''email'') = Inr d"
    and "\<forall>st. \<not> is_write st \<longrightarrow> sql_error en st = Some err"
  shows "fst (createCustomer en prevState formData w) = Thrown err"
    and "fst (updateCustomer en id' prevState formData w) = Thrown err"
proof -
  show "fst (createCustomer en prevState formData w) = Thrown err"
  proof (cases rule: isEmailUnique_cases [of en "data_email d" None w])
    case (failed e q)
    with assms show ?thesis
      by (simp add: createCustomer_def CreateCustomer_safeParse_def)
  next
    case (answered b q)
    with assms(2) show ?thesis by simp
  qed
  show "fst (updateCustomer en id' prevState formData w) = Thrown err"
  proof (cases rule: isEmailUnique_cases [of en "data_email d" "Some id'" w])
    case (failed e q)
    with assms show ?thesis
      by (simp add: updateCustomer_def UpdateCustomer_safeParse_def)
  next
    case (answered b q)
    with assms(2) show ?thesis by simp
  qed
qed

text \<open>
  C6 on the code. With a store that rejects every statement, a valid customer form makes
  \<^verbatim>\<open>createCustomer\<close> and \<^verbatim>\<open>updateCustomer\<close> throw: the uniqueness query of
  \<^verbatim>\<open>isEmailUnique\<close> is sent outside any \<^verbatim>\<open>try\<close>, so its error leaves the action instead
  of becoming a \<^verbatim>\<open>Database Error\<close> message. \<^verbatim>\<open>deleteCustomer\<close>, whose guard query is
  inside its \<^verbatim>\<open>try\<close>, returns the message on the same store.
\<close>

theorem customer_actions_throw_on_failing_store:
  "createCustomer
     \<lparr>sql_error = (\<lambda>_. Some (OtherError ''connect ECONNREFUSED'')), generated_id = ''7'',
      now_iso = ''2024-05-17T09:30:00.000Z'', is_email = (\<lambda>s. CHR ''@'' \<in> set s),
      signIn = (\<lambda>_ _. None)\<rparr>
     \<lparr>errors = None, message = None\<rparr>
     [''name'' \<mapsto> Str ''Bob'', ''email'' \<mapsto> Str ''b@x.com'']
     \<lparr>invoices = [], customers = [], sql_log = [], revalidated = []\<rparr>
   = (Thrown (OtherError ''connect ECONNREFUSED''),
      \<lparr>invoices = [], customers = [], sql_log = [EmailExists ''b@x.com''], revalidated = []\<rparr>)
   \<and> updateCustomer
     \<lparr>sql_error = (\<lambda>_. Some (OtherError ''connect ECONNREFUSED'')), generated_id = ''7'',
      now_iso = ''2024-05-17T09:30:00.000Z'', is_email = (\<lambda>s. CHR ''@'' \<in> set s),
      signIn = (\<lambda>_ _. None)\<rparr>
     ''5''
     \<lparr>errors = None, message = None\<rparr>
     [''name'' \<mapsto> Str ''Bob'', ''email'' \<mapsto> Str ''b@x.com'']
     \<lparr>invoices = [], customers = [], sql_log = [], revalidated = []\<rparr>
   = (Thrown (OtherError ''connect ECONNREFUSED''),
      \<lparr>invoices = [], customers = [], sql_log = [EmailExistsExcept ''b@x.com'' ''5''],
       revalidated = []\<rparr>)
   \<and> deleteCustomer
     \<lparr>sql_error = (\<lambda>_. Some (OtherError ''connect ECONNREFUSED'')), generated_id = ''7'',
      now_iso = ''2024-05-17T09:30:00.000Z'', is_email = (\<lambda>s. CHR ''@'' \<in> set s),
      signIn = (\<lambda>_ _. None)\<rparr>
     ''5''
     \<lparr>invoices = [], customers = [], sql_log = [], revalidated = []\<rparr>
   = (Returned (message_only ''Database Error: Failed to Delete Customer.''),
      \<lparr>invoices = [], customers = [], sql_log = [InvoiceExistsFor ''5''], revalidated = []\<rparr>)"
  by (simp add: createCustomer_def updateCustomer_def deleteCustomer_def CreateCustomer_safeParse_def
      UpdateCustomer_safeParse_def CustomerFormSchema_safeParse_def parse_name_def parse_email_def
      trim_def is_white_space_def isEmailUnique_def sql_def Let_def message_only_def)

end
